theory Spec2Isabelle
  imports Main "HOL-Library.Sublist"
begin

section \<open>Python primitives used by tools/string_headers.py\<close>

text \<open>
  Python integers are unbounded and are modelled as \<open>int\<close>; Python 2 byte strings are
  modelled as \<open>string\<close>. The exceptions of the program are \<open>ValueError\<close> (from
  \<open>int\<close>, from \<open>max\<close> of an empty sequence and from a zero \<open>xrange\<close> step),
  \<open>OSError\<close> (from \<open>os.remove\<close>), \<open>ArgumentTypeError\<close> (from \<open>positive_integer\<close>)
  and \<open>SystemExit\<close> (from \<open>sys.exit\<close>).
\<close>

datatype error = ValueError | OSError | ArgumentTypeError | SystemExit

definition digit_char :: "nat \<Rightarrow> char" where
  "digit_char d = ''0123456789ABCDEF'' ! d"

text \<open>\<open>str(n)\<close> for a non-negative integer: its decimal digits.\<close>

function str_nat :: "nat \<Rightarrow> string" where
  "str_nat n = (if n < 10 then [digit_char n] else str_nat (n div 10) @ [digit_char (n mod 10)])"
  by pat_completeness auto
termination
  by (relation "measure (\<lambda>n. n)") auto

declare str_nat.simps [simp del]

definition str :: "int \<Rightarrow> string" where
  "str i = (if i < 0 then CHR ''-'' # str_nat (nat (- i)) else str_nat (nat i))"

text \<open>The format specification \<open>{:X}\<close>: upper-case hexadecimal digits, no prefix, no padding.\<close>

function hex_nat :: "nat \<Rightarrow> string" where
  "hex_nat n = (if n < 16 then [digit_char n] else hex_nat (n div 16) @ [digit_char (n mod 16)])"
  by pat_completeness auto
termination
  by (relation "measure (\<lambda>n. n)") auto

declare hex_nat.simps [simp del]

definition format_X :: "int \<Rightarrow> string" where
  "format_X i = (if i < 0 then CHR ''-'' # hex_nat (nat (- i)) else hex_nat (nat i))"

text \<open>
  \<open>s.zfill(width)\<close>: the string is returned unchanged when it is already wide enough;
  otherwise zeros are filled in on the left, after a leading sign if there is one.
\<close>

definition zfill :: "string \<Rightarrow> nat \<Rightarrow> string" where
  "zfill s width =
     (if width \<le> length s then s
      else (case s of
              c # rest \<Rightarrow>
                (if c = CHR ''+'' \<or> c = CHR ''-''
                 then c # replicate (width - length s) CHR ''0'' @ rest
                 else replicate (width - length s) CHR ''0'' @ s)
            | [] \<Rightarrow> replicate width CHR ''0''))"

text \<open>
  \<open>xrange(start, stop, step)\<close>: counting up for a positive step, down for a negative one;
  a zero step raises \<open>ValueError\<close>. The arguments are taken to lie in the range of a C
  \<open>long\<close>; beyond it \<open>xrange\<close> raises \<open>OverflowError\<close>, which is not modelled.
\<close>

function xrange_up :: "int \<Rightarrow> int \<Rightarrow> int \<Rightarrow> int list" where
  "xrange_up i stop step =
     (if 0 < step \<and> i < stop then i # xrange_up (i + step) stop step else [])"
  by pat_completeness auto
termination
  by (relation "measure (\<lambda>(i, stop, step). nat (stop - i))") auto

declare xrange_up.simps [simp del]

function xrange_down :: "int \<Rightarrow> int \<Rightarrow> int \<Rightarrow> int list" where
  "xrange_down i stop step =
     (if step < 0 \<and> stop < i then i # xrange_down (i + step) stop step else [])"
  by pat_completeness auto
termination
  by (relation "measure (\<lambda>(i, stop, step). nat (i - stop))") auto

declare xrange_down.simps [simp del]

definition xrange3 :: "int \<Rightarrow> int \<Rightarrow> int \<Rightarrow> error + int list" where
  "xrange3 start stop step =
     (if step = 0 then Inl ValueError
      else if 0 < step then Inr (xrange_up start stop step)
      else Inr (xrange_down start stop step))"

text \<open>\<open>xrange(start, stop)\<close>, the step being 1.\<close>

definition xrange :: "int \<Rightarrow> int \<Rightarrow> int list" where
  "xrange start stop = xrange_up start stop 1"

text \<open>\<open>sep.join(xs)\<close>.\<close>

fun join :: "string \<Rightarrow> string list \<Rightarrow> string" where
  "join sep [] = []"
| "join sep [x] = x"
| "join sep (x # y # ys) = x @ sep @ join sep (y # ys)"

section \<open>The length limits\<close>

definition length_limits :: "int \<Rightarrow> int \<Rightarrow> error + string list" where
  "length_limits max_length_limit length_limit_step =
     (let string_len = length (str max_length_limit)
      in case xrange3 length_limit_step
                (max_length_limit + length_limit_step - 1)
                length_limit_step of
           Inl e \<Rightarrow> Inl e
         | Inr is \<Rightarrow> Inr (map (\<lambda>i. zfill (str i) string_len) is))"

section \<open>Indexing a string literal\<close>

definition VERSION :: int where
  "VERSION = 1"

text \<open>
  The two kinds of index expression: a batched macro call
  \<open>'BOOST_METAPARSE_V1_STRING_AT{0}((s), {1:X})'.format(exp, i)\<close> and an explicit lookup
  \<open>'::boost::metaparse::v{0}::impl::string_at<{1}>((s), {2})'.format(VERSION, length_limit, i)\<close>.
\<close>

definition batched_call :: "int \<Rightarrow> int \<Rightarrow> string" where
  "batched_call exp i =
     ''BOOST_METAPARSE_V1_STRING_AT'' @ str exp @ ''((s), '' @ format_X i @ '')''"

definition explicit_lookup :: "int \<Rightarrow> int \<Rightarrow> string" where
  "explicit_lookup length_limit i =
     ''::boost::metaparse::v'' @ str VERSION @ ''::impl::string_at<'' @ str length_limit
       @ ''>((s), '' @ str i @ '')''"

text \<open>
  One round of the loop \<open>for exp in xrange(3, 0, -1)\<close>, on the pair of the loop
  variables \<open>left\<close> and \<open>result\<close>; \<open>divmod\<close> is floor division with its remainder.
\<close>

definition indexing_step :: "int \<times> string list \<Rightarrow> int \<Rightarrow> int \<times> string list" where
  "indexing_step st exp =
     (case st of (left, result) \<Rightarrow>
        (let step = left div 16 ^ nat exp;
             left' = left mod 16 ^ nat exp
         in (left', result @ map (batched_call exp) (xrange 0 step))))"

text \<open>The list \<open>result\<close> as it stands before the final \<open>', '.join(result)\<close>.\<close>

definition index_expressions :: "int \<Rightarrow> string list" where
  "index_expressions length_limit =
     (case foldl indexing_step (length_limit, []) (xrange_down 3 0 (- 1)) of
        (left, result) \<Rightarrow> result @ map (explicit_lookup length_limit) (xrange 0 left))"

definition generate_string_indexing :: "int \<Rightarrow> string" where
  "generate_string_indexing length_limit = join '', '' (index_expressions length_limit)"

text \<open>
  Counting the expressions of each kind in a list of index expressions: a batched call of
  weight \<open>16 ^ exp\<close> is an entry that starts with the macro name for \<open>exp\<close> and its opening
  parenthesis, an explicit lookup one that starts with the qualified \<open>string_at<\<close>.
\<close>

definition count_batched :: "int \<Rightarrow> string list \<Rightarrow> nat" where
  "count_batched exp xs =
     length (filter (prefix (''BOOST_METAPARSE_V1_STRING_AT'' @ str exp @ ''('')) xs)"

definition count_explicit :: "string list \<Rightarrow> nat" where
  "count_explicit xs =
     length (filter (prefix ''::boost::metaparse::v1::impl::string_at<'') xs)"

section \<open>Text emitters\<close>

text \<open>
  Every helper that writes to the output stream \<open>out_f\<close> is modelled by the text it
  writes; consecutive writes are concatenated.
\<close>

definition upper_char :: "char \<Rightarrow> char" where
  "upper_char c =
     (case map_of (zip ''abcdefghijklmnopqrstuvwxyz'' ''ABCDEFGHIJKLMNOPQRSTUVWXYZ'') c of
        Some u \<Rightarrow> u | None \<Rightarrow> c)"

definition lower_char :: "char \<Rightarrow> char" where
  "lower_char c =
     (case map_of (zip ''ABCDEFGHIJKLMNOPQRSTUVWXYZ'' ''abcdefghijklmnopqrstuvwxyz'') c of
        Some l \<Rightarrow> l | None \<Rightarrow> c)"

definition upper :: "string \<Rightarrow> string" where
  "upper s = map upper_char s"

definition lower :: "string \<Rightarrow> string" where
  "lower s = map lower_char s"

text \<open>The class \<open>Namespace\<close>, as functions of its field \<open>names\<close>.\<close>

definition namespace_prefix :: "nat \<Rightarrow> string" where
  "namespace_prefix depth = concat (replicate depth ''  '')"

definition namespace_begin :: "string list \<Rightarrow> string" where
  "namespace_begin names =
     ''\<newline>'' @
     concat (map (\<lambda>(depth, name).
                    namespace_prefix depth @ ''namespace '' @ name @ ''\<newline>''
                    @ namespace_prefix depth @ ''{\<newline>'')
                 (enumerate 0 names))"

definition namespace_end :: "string list \<Rightarrow> string" where
  "namespace_end names =
     concat (map (\<lambda>depth. namespace_prefix (nat depth) @ ''}\<newline>'')
                 (xrange_down (int (length names) - 1) (- 1) (- 1)))"

definition namespace_path :: "string list \<Rightarrow> string" where
  "namespace_path names = ''::'' @ join ''::'' names"

definition write_autogen_info :: string where
  "write_autogen_info =
     ''\<newline>''
     @ ''// This is an automatically generated header file.\<newline>''
     @ ''// Generated with the tools/string_headers.py utility of\<newline>''
     @ ''// Boost.Metaparse\<newline>''"

definition write_no_include_guard_info :: string where
  "write_no_include_guard_info =
     ''// no include guard: the header might be included multiple times\<newline>''"

text \<open>The class \<open>IncludeGuard\<close>, as functions of its constructor arguments.\<close>

definition include_guard_name :: "string \<Rightarrow> bool \<Rightarrow> string" where
  "include_guard_name name undefine =
     (if undefine then ''UNDEF_'' @ upper name else upper name)"

definition include_guard_begin :: "string \<Rightarrow> bool \<Rightarrow> string" where
  "include_guard_begin name undefine =
     (let guard = ''BOOST_METAPARSE_V1_IMPL_'' @ include_guard_name name undefine @ ''_HPP''
      in ''#ifndef '' @ guard @ ''\<newline>#define '' @ guard @ ''\<newline>''
         @ write_autogen_info)"

definition include_guard_end :: string where
  "include_guard_end = ''\<newline>#endif\<newline>''"

definition macro_name :: "string \<Rightarrow> string" where
  "macro_name name = ''BOOST_METAPARSE_V'' @ str VERSION @ ''_'' @ name"

text \<open>A macro is the triple \<open>(name, args, body)\<close> that \<open>define_macro\<close> receives.\<close>

type_synonym macro = "string \<times> string list \<times> string"

definition define_macro :: "macro \<Rightarrow> bool \<Rightarrow> bool \<Rightarrow> string" where
  "define_macro m undefine check =
     (case m of (name, args, body) \<Rightarrow>
        if undefine then ''#undef '' @ macro_name name @ ''\<newline>''
        else
          (let arg_list = (if 0 < length args then ''('' @ join '', '' args @ '')'' else [])
           in (if check
               then ''#ifdef '' @ macro_name name @ ''\<newline>''
                    @ ''#  error '' @ macro_name name @ '' already defined.\<newline>''
                    @ ''#endif\<newline>''
               else [])
              @ ''#define '' @ macro_name name @ arg_list @ '' '' @ body @ ''\<newline>''))"

text \<open>
  The output directory \<open>out_dir\<close> is modelled by the map from the names of its entries
  to their contents; \<open>os.path.join(out_dir, n)\<close> addresses the entry \<open>n\<close> of that
  directory. \<open>filename\<close> gives the entry name. Opening a file for writing is taken to
  succeed.
\<close>

type_synonym directory = "string \<rightharpoonup> string"

definition filename :: "string \<Rightarrow> bool \<Rightarrow> string" where
  "filename name undefine =
     (let prefix = (if undefine then ''undef_'' else [])
      in prefix @ lower name @ ''.hpp'')"

text \<open>
  \<open>with open(fname, 'wb') as out_f\<close>: the file is created or truncated, and when the
  block is left, normally or by an exception, it holds what was written up to then.
  The block is given by the text it writes and the exception it raises, if any.
\<close>

definition write_file :: "string \<Rightarrow> string \<times> (error + unit) \<Rightarrow> directory \<Rightarrow> directory \<times> (error + unit)" where
  "write_file fname block dir = (dir(fname \<mapsto> fst block), snd block)"

section \<open>The macro families\<close>

text \<open>
  \<open>generate_enum\<close> and \<open>generate_repetition\<close> call \<open>define_macro\<close> for the dispatcher
  (with the default \<open>check=True\<close>), for the helpers 0 and 1, and in a loop for the helpers
  \<open>2 .. max_count\<close> (all with \<open>check=False\<close>). The calls are collected as the list of
  their macro triples, each with its \<open>check\<close> argument.
\<close>

definition cat :: string where
  "cat = macro_name ''CAT''"

definition dispatcher_macro :: "string \<Rightarrow> string \<Rightarrow> macro" where
  "dispatcher_macro name internal_name =
     (name, [''count'', ''param''],
      cat @ ''('' @ macro_name internal_name @ '', count)(param)'')"

definition enum_helper :: "string \<Rightarrow> int \<Rightarrow> macro" where
  "enum_helper internal_name count =
     (internal_name @ str count, [''param''],
      macro_name internal_name @ str (count - 1) @ ''(param), ''
        @ cat @ ''(param, '' @ str (count - 1) @ '')'')"

definition enum_macros :: "string \<Rightarrow> string \<Rightarrow> int \<Rightarrow> (macro \<times> bool) list" where
  "enum_macros name internal_name max_count =
     [(dispatcher_macro name internal_name, True),
      ((internal_name @ ''0'', [''param''], []), False),
      ((internal_name @ ''1'', [''param''], cat @ ''(param, 0)''), False)]
     @ map (\<lambda>count. (enum_helper internal_name count, False)) (xrange 2 (max_count + 1))"

definition repetition_helper :: "string \<Rightarrow> int \<Rightarrow> macro" where
  "repetition_helper internal_name count =
     (internal_name @ str count, [''param''],
      macro_name internal_name @ str (count - 1) @ ''(param), param'')"

definition repetition_macros :: "string \<Rightarrow> string \<Rightarrow> int \<Rightarrow> (macro \<times> bool) list" where
  "repetition_macros name internal_name max_count =
     [(dispatcher_macro name internal_name, True),
      ((internal_name @ ''0'', [''param''], []), False),
      ((internal_name @ ''1'', [''param''], ''param''), False)]
     @ map (\<lambda>count. (repetition_helper internal_name count, False)) (xrange 2 (max_count + 1))"

definition define_macros :: "(macro \<times> bool) list \<Rightarrow> bool \<Rightarrow> string" where
  "define_macros ms undefine = concat (map (\<lambda>(m, check). define_macro m undefine check) ms)"

definition generate_enum :: "string \<Rightarrow> string \<Rightarrow> int \<Rightarrow> bool \<Rightarrow> directory \<Rightarrow> directory \<times> (error + unit)" where
  "generate_enum name internal_name max_count undefine =
     write_file (filename name undefine)
       (write_no_include_guard_info @ write_autogen_info
          @ define_macros (enum_macros name internal_name max_count) undefine,
        Inr ())"

definition generate_repetition :: "string \<Rightarrow> string \<Rightarrow> int \<Rightarrow> bool \<Rightarrow> directory \<Rightarrow> directory \<times> (error + unit)" where
  "generate_repetition name internal_name max_count undefine =
     write_file (filename name undefine)
       (write_no_include_guard_info @ write_autogen_info
          @ define_macros (repetition_macros name internal_name max_count) undefine,
        Inr ())"

section \<open>The string headers\<close>

text \<open>
  Python's built-in \<open>int\<close>, applied to a string, is a parameter \<open>int_of\<close> of every function
  that calls it: \<open>Some v\<close> when \<open>int(s)\<close> returns \<open>v\<close>, \<open>None\<close> when it raises
  \<open>ValueError\<close>. On the strings that \<open>length_limits\<close> produces (decimal digits) it is
  \<open>int_decimal\<close>.
\<close>

definition is_digit :: "char \<Rightarrow> bool" where
  "is_digit c = (c \<in> set ''0123456789'')"

definition digit_value :: "char \<Rightarrow> int" where
  "digit_value c = int (length (takeWhile (\<lambda>d. d \<noteq> c) ''0123456789''))"

definition int_decimal :: "string \<Rightarrow> int option" where
  "int_decimal s =
     (if s \<noteq> [] \<and> list_all is_digit s
      then Some (foldl (\<lambda>acc c. 10 * acc + digit_value c) 0 s)
      else None)"

text \<open>Sequencing of two pieces of a \<open>with open(...)\<close> block: an exception ends the block.\<close>

definition then_write :: "string \<times> (error + unit) \<Rightarrow> string \<times> (error + unit) \<Rightarrow> string \<times> (error + unit)" where
  "then_write a b = (case snd a of Inl e \<Rightarrow> a | Inr u \<Rightarrow> (fst a @ fst b, snd b))"

text \<open>Sequencing of two procedures on the directory: an exception ends the run.\<close>

definition and_then :: "(directory \<Rightarrow> directory \<times> (error + unit)) \<Rightarrow> (directory \<Rightarrow> directory \<times> (error + unit)) \<Rightarrow> directory \<Rightarrow> directory \<times> (error + unit)" where
  "and_then f g dir = (case f dir of (dir', Inl e) \<Rightarrow> (dir', Inl e) | (dir', Inr u) \<Rightarrow> g dir')"

fun for_each :: "('a \<Rightarrow> directory \<Rightarrow> directory \<times> (error + unit)) \<Rightarrow> 'a list \<Rightarrow> directory \<Rightarrow> directory \<times> (error + unit)" where
  "for_each f [] dir = (dir, Inr ())"
| "for_each f (x # xs) dir = and_then (f x) (for_each f xs) dir"

definition string_definitions :: "string \<Rightarrow> int \<Rightarrow> string" where
  "string_definitions nsp_prefix length_limit =
     concat (map (\<lambda>spec_length.
                    nsp_prefix @ macro_name [] @ ''('' @ str spec_length @ '', ''
                    @ str (length_limit - spec_length) @ '')\<newline>'')
                 (xrange 1 length_limit))"

text \<open>The text that \<open>generate_with_length_limit\<close> writes into the file it has opened.\<close>

definition length_limit_header :: "string \<Rightarrow> int \<Rightarrow> string" where
  "length_limit_header name length_limit =
     (let names = [''boost'', ''metaparse'', ''v'' @ str VERSION, ''impl''];
          nsp_prefix = namespace_prefix (length names)
      in include_guard_begin name False
         @ define_macro (''TMP_LENGTH_LIMIT'', [], str length_limit) False True
         @ namespace_begin names
         @ nsp_prefix @ macro_name ''DEFINE_STRING'' @ ''\<newline>''
         @ ''\<newline>''
         @ string_definitions nsp_prefix length_limit
         @ nsp_prefix @ macro_name ''SPECIALISE_STRING0'' @ ''\<newline>''
         @ namespace_end names
         @ define_macro (''TMP_LENGTH_LIMIT'', [], []) True True
         @ define_macro
             (''STRING'' @ str length_limit, [''s''],
              namespace_path names @ ''::string'' @ str length_limit @ ''<''
                @ generate_string_indexing length_limit @ ''>::type'')
             False True
         @ include_guard_end)"

definition generate_with_length_limit :: "(string \<Rightarrow> int option) \<Rightarrow> string \<Rightarrow> directory \<Rightarrow> directory \<times> (error + unit)" where
  "generate_with_length_limit int_of length_limit_str dir =
     (case int_of length_limit_str of
        None \<Rightarrow> (dir, Inl ValueError)
      | Some length_limit \<Rightarrow>
          (let name = ''string'' @ length_limit_str
           in write_file (filename name False)
                (length_limit_header name length_limit, Inr ()) dir))"

text \<open>
  \<open>max((int(v) for v in values))\<close>: the values are converted one after the other, and
  \<open>max\<close> of no value at all raises \<open>ValueError\<close>.
\<close>

fun ints_of :: "(string \<Rightarrow> int option) \<Rightarrow> string list \<Rightarrow> error + int list" where
  "ints_of int_of [] = Inr []"
| "ints_of int_of (v # vs) =
     (case int_of v of
        None \<Rightarrow> Inl ValueError
      | Some i \<Rightarrow> (case ints_of int_of vs of Inl e \<Rightarrow> Inl e | Inr is \<Rightarrow> Inr (i # is)))"

definition max_value :: "(string \<Rightarrow> int option) \<Rightarrow> string list \<Rightarrow> error + int" where
  "max_value int_of values =
     (case ints_of int_of values of
        Inl e \<Rightarrow> Inl e
      | Inr [] \<Rightarrow> Inl ValueError
      | Inr (i # is) \<Rightarrow> Inr (foldl max i is))"

definition generate_headers :: "(string \<Rightarrow> int option) \<Rightarrow> string list \<Rightarrow> directory \<Rightarrow> directory \<times> (error + unit)" where
  "generate_headers int_of limits dir =
     (case max_value int_of limits of
        Inl e \<Rightarrow> (dir, Inl e)
      | Inr max_limit \<Rightarrow>
          and_then
            (for_each
               (\<lambda>undefine.
                  and_then (generate_enum ''ENUM_PARAMS'' ''EP'' max_limit undefine)
                           (generate_repetition ''ENUM_CONSTANT'' ''EC'' max_limit undefine))
               [True, False])
            (for_each (generate_with_length_limit int_of) limits)
            dir)"

definition headers :: "string list" where
  "headers = [''enum_params'', ''cat'', ''enum_constant'', ''define_string'', ''specialise_string'']"

text \<open>The loop \<open>for nth, length_limit in enumerate(limits)\<close> of \<open>generate_string\<close>, the index \<open>nth\<close> being \<open>nth_limit\<close>.\<close>

fun string_branches :: "(string \<Rightarrow> int option) \<Rightarrow> nat \<Rightarrow> string list \<Rightarrow> string \<times> (error + unit)" where
  "string_branches int_of nth_limit [] = ([], Inr ())"
| "string_branches int_of nth_limit (length_limit # rest) =
     (case int_of length_limit of
        None \<Rightarrow> ([], Inl ValueError)
      | Some v \<Rightarrow>
          (let if_name = (if nth_limit = 0 then ''#if'' else ''#elif'')
           in then_write
                (if_name @ '' BOOST_METAPARSE_LIMIT_STRING_SIZE <= '' @ str v @ ''\<newline>''
                 @ ''#  include <boost/metaparse/v'' @ str VERSION @ ''/impl/string''
                 @ length_limit @ ''.hpp>\<newline>''
                 @ ''#  define BOOST_METAPARSE_V1_STRING''
                 @ '' BOOST_METAPARSE_V1_STRING'' @ str v @ ''\<newline>'',
                 Inr ())
                (string_branches int_of (Suc nth_limit) rest)))"

definition string_else :: "(string \<Rightarrow> int option) \<Rightarrow> string list \<Rightarrow> string \<times> (error + unit)" where
  "string_else int_of limits =
     (case max_value int_of limits of
        Inl e \<Rightarrow> ([], Inl e)
      | Inr m \<Rightarrow>
          (''#else\<newline>''
           @ ''#  error BOOST_METAPARSE_LIMIT_STRING_SIZE is greater than '' @ str m @ ''.''
           @ '' To increase the limit run tools/string_headers.py of''
           @ '' Boost.Metaparse against your Boost headers.\<newline>''
           @ ''#endif\<newline>''
           @ ''\<newline>'',
           Inr ()))"

definition generate_string :: "(string \<Rightarrow> int option) \<Rightarrow> string list \<Rightarrow> directory \<Rightarrow> directory \<times> (error + unit)" where
  "generate_string int_of limits =
     write_file (filename ''string'' False)
       (then_write
          (write_no_include_guard_info @ write_autogen_info
           @ ''\<newline>''
           @ ''#ifndef BOOST_METAPARSE_LIMIT_STRING_SIZE\<newline>''
           @ ''#  error BOOST_METAPARSE_LIMIT_STRING_SIZE not defined\<newline>''
           @ ''#endif\<newline>''
           @ ''\<newline>''
           @ ''#ifdef BOOST_METAPARSE_V1_STRING\<newline>''
           @ ''#  undef BOOST_METAPARSE_V1_STRING\<newline>''
           @ ''#endif\<newline>''
           @ ''\<newline>''
           @ concat (map (\<lambda>header. ''#include <boost/metaparse/v'' @ str VERSION @ ''/impl/''
                                     @ header @ ''.hpp>\<newline>'') headers)
           @ ''\<newline>'',
           Inr ())
          (then_write (string_branches int_of 0 limits)
             (then_write (string_else int_of limits)
                (concat (map (\<lambda>header. ''#include <boost/metaparse/v'' @ str VERSION
                                          @ ''/impl/undef_'' @ header @ ''.hpp>\<newline>'') headers),
                 Inr ()))))"

section \<open>The generation driver\<close>

text \<open>
  \<open>os.remove\<close> raises \<open>OSError\<close> when there is no such entry and when the entry cannot
  be removed (it is a subdirectory, or the permissions forbid it); \<open>undeletable\<close> is the
  set of the names of the entries that cannot be removed.
\<close>

definition os_remove :: "string set \<Rightarrow> string \<Rightarrow> directory \<Rightarrow> error + directory" where
  "os_remove undeletable path dir =
     (if dir path = None \<or> path \<in> undeletable then Inl OSError
      else Inr (dir(path := None)))"

text \<open>\<open>remove_file\<close> tries \<open>os.remove\<close> and passes over its \<open>OSError\<close>.\<close>

definition remove_file :: "string set \<Rightarrow> string \<Rightarrow> directory \<Rightarrow> directory" where
  "remove_file undeletable fname dir =
     (case os_remove undeletable fname dir of Inl e \<Rightarrow> dir | Inr dir' \<Rightarrow> dir')"

text \<open>
  The compiled pattern \<open>'string[0-9]+.hpp'\<close> is a sequence of items: a literal character,
  the dot (any character but a newline), and the digit class repeated once or more.
  \<open>re_match\<close> is \<open>pattern.match(s)\<close>: it holds when some prefix of \<open>s\<close> matches the
  whole pattern.
\<close>

datatype re_item = Lit char | AnyChar | DigitsPlus

fun re_match :: "re_item list \<Rightarrow> string \<Rightarrow> bool" where
  "re_match [] s = True"
| "re_match (Lit c # p) [] = False"
| "re_match (Lit c # p) (x # xs) = (x = c \<and> re_match p xs)"
| "re_match (AnyChar # p) [] = False"
| "re_match (AnyChar # p) (x # xs) = (x \<noteq> CHR ''\<newline>'' \<and> re_match p xs)"
| "re_match (DigitsPlus # p) [] = False"
| "re_match (DigitsPlus # p) (x # xs) =
     (is_digit x \<and> (re_match (DigitsPlus # p) xs \<or> re_match p xs))"

definition string_header :: "re_item list" where
  "string_header = map Lit ''string'' @ [DigitsPlus, AnyChar] @ map Lit ''hpp''"

text \<open>
  The loop \<open>for header in os.listdir(out_dir)\<close> calls \<open>remove_file\<close> for every listed
  entry whose name the pattern matches: afterwards such a name has the entry that
  \<open>remove_file\<close> leaves, and every other name has the entry it had.
\<close>

definition remove_string_headers :: "string set \<Rightarrow> directory \<Rightarrow> directory" where
  "remove_string_headers undeletable dir =
     (\<lambda>header. if re_match string_header header
                then remove_file undeletable header dir header
                else dir header)"

definition remove_old_headers :: "string set \<Rightarrow> directory \<Rightarrow> directory" where
  "remove_old_headers undeletable dir =
     remove_string_headers undeletable
       (fold (\<lambda>prefix d.
                remove_file undeletable (prefix @ ''string.hpp'')
                  (remove_file undeletable (prefix @ ''enum_constant.hpp'')
                     (remove_file undeletable (prefix @ ''enum_params.hpp'') d)))
             [[], ''undef_''] dir)"

definition generate :: "string set \<Rightarrow> (string \<Rightarrow> int option) \<Rightarrow> string list \<Rightarrow> directory \<Rightarrow> directory \<times> (error + unit)" where
  "generate undeletable int_of limits dir =
     and_then (generate_string int_of limits) (generate_headers int_of limits)
       (remove_old_headers undeletable dir)"

text \<open>
  \<open>positive_integer\<close>, on the integer \<open>val\<close> that \<open>int(value)\<close> gives for the command-line
  argument.
\<close>

definition positive_integer :: "int \<Rightarrow> error + int" where
  "positive_integer val = (if 0 < val then Inr val else Inl ArgumentTypeError)"

text \<open>
  \<open>main\<close>, for the output directory given by \<open>--boost_dir\<close> and the two numeric
  arguments: both are converted by \<open>positive_integer\<close>, a maximum below 1 ends the program,
  and \<open>generate\<close> is called with the limits that \<open>length_limits\<close> returns.
\<close>

definition main :: "string set \<Rightarrow> (string \<Rightarrow> int option) \<Rightarrow> int \<Rightarrow> int \<Rightarrow> directory \<Rightarrow> directory \<times> (error + unit)" where
  "main undeletable int_of max_length_limit_arg length_limit_step_arg dir =
     (case positive_integer max_length_limit_arg of
        Inl e \<Rightarrow> (dir, Inl e)
      | Inr max_length_limit \<Rightarrow>
          (case positive_integer length_limit_step_arg of
             Inl e \<Rightarrow> (dir, Inl e)
           | Inr length_limit_step \<Rightarrow>
               if max_length_limit < 1 then (dir, Inl SystemExit)
               else (case length_limits max_length_limit length_limit_step of
                       Inl e \<Rightarrow> (dir, Inl e)
                     | Inr limits \<Rightarrow> generate undeletable int_of limits dir)))"

section \<open>Notions used to state the properties\<close>

text \<open>The value of a hexadecimal numeral written with the digits \<open>0-9A-F\<close>.\<close>

definition hex_digit_value :: "char \<Rightarrow> int" where
  "hex_digit_value c = int (length (takeWhile (\<lambda>d. d \<noteq> c) ''0123456789ABCDEF''))"

definition hex_value :: "string \<Rightarrow> int" where
  "hex_value s = foldl (\<lambda>acc c. 16 * acc + hex_digit_value c) 0 s"

text \<open>
  The index expressions with the numbers they are formatted from: \<open>index_structure\<close> is
  \<open>generate_string_indexing\<close> with each \<open>format\<close> call replaced by the constructor of
  its kind, so that \<open>render\<close> gives the expression back.
\<close>

datatype index_expr = Batched int int | Explicit int int

fun render :: "index_expr \<Rightarrow> string" where
  "render (Batched exp i) = batched_call exp i"
| "render (Explicit length_limit i) = explicit_lookup length_limit i"

definition structure_step :: "int \<times> index_expr list \<Rightarrow> int \<Rightarrow> int \<times> index_expr list" where
  "structure_step st exp =
     (case st of (left, result) \<Rightarrow>
        (let step = left div 16 ^ nat exp;
             left' = left mod 16 ^ nat exp
         in (left', result @ map (Batched exp) (xrange 0 step))))"

definition index_structure :: "int \<Rightarrow> index_expr list" where
  "index_structure length_limit =
     (case foldl structure_step (length_limit, []) (xrange_down 3 0 (- 1)) of
        (left, result) \<Rightarrow> result @ map (Explicit length_limit) (xrange 0 left))"

text \<open>
  Modelled from the spec: the macros \<open>BOOST_METAPARSE_V1_STRING_AT1\<close>, \<open>2\<close> and \<open>3\<close> and the
  function \<open>string_at\<close> are not in the source. A batched call covers one weight-sized
  contiguous block of positions, addressed by its 0-based index (\<open>block_positions\<close>); an
  explicit lookup covers the single position it names (\<open>positions_of\<close>, where the
  positions of the batched calls are a parameter \<open>block\<close>).
\<close>

definition block_positions :: "int \<Rightarrow> int \<Rightarrow> int list" where
  "block_positions exp i = xrange (i * 16 ^ nat exp) ((i + 1) * 16 ^ nat exp)"

fun positions_of :: "(int \<Rightarrow> int \<Rightarrow> int list) \<Rightarrow> index_expr \<Rightarrow> int list" where
  "positions_of block (Batched exp i) = block exp i"
| "positions_of block (Explicit length_limit i) = [i]"

text \<open>
  The positions that the index expressions for a length limit address, one after the
  other; and the property that they are the positions \<open>0 .. L - 1\<close>, each addressed once.
\<close>

definition addressed_positions :: "(int \<Rightarrow> int \<Rightarrow> int list) \<Rightarrow> int \<Rightarrow> int list" where
  "addressed_positions block L = concat (map (positions_of block) (index_structure L))"

definition covers_exactly :: "(int \<Rightarrow> int \<Rightarrow> int list) \<Rightarrow> int \<Rightarrow> bool" where
  "covers_exactly block L =
     (distinct (addressed_positions block L)
      \<and> set (addressed_positions block L) = set (xrange 0 L))"

text \<open>
  A procedure on the directory only writes files when its effect is to overlay the
  directory with a fixed map of files, and its result does not depend on the directory.
\<close>

definition writes_only :: "(directory \<Rightarrow> directory \<times> (error + unit)) \<Rightarrow> bool" where
  "writes_only p = (\<exists>files result. \<forall>dir. p dir = (dir ++ files, result))"

section \<open>Auxiliary lemmas\<close>


lemma xrange_up_one: "xrange_up a b 1 = map (\<lambda>k. a + int k) [0..<nat (b - a)]"
proof (induction a b "1::int" rule: xrange_up.induct)
  case (1 i stop)
  show ?case
  proof (cases "i < stop")
    case True
    then have n: "nat (stop - i) = Suc (nat (stop - (i + 1)))" by simp
    have "xrange_up i stop 1 = i # xrange_up (i + 1) stop 1"
      using True by (simp add: xrange_up.simps [of i])
    also have "\<dots> = i # map (\<lambda>k. i + 1 + int k) [0..<nat (stop - (i + 1))]"
      using 1 True by simp
    also have "\<dots> = map (\<lambda>k. i + int k) [0..<nat (stop - i)]"
      unfolding n by (simp add: upt_conv_Cons map_Suc_upt [symmetric] del: upt_Suc)
    finally show ?thesis .
  next
    case False
    then show ?thesis by (simp add: xrange_up.simps [of i])
  qed
qed

lemma xrange_eq: "xrange a b = map (\<lambda>k. a + int k) [0..<nat (b - a)]"
  by (simp add: xrange_def xrange_up_one)

lemma length_xrange: "length (xrange a b) = nat (b - a)"
  by (simp add: xrange_eq)

lemma nth_xrange: "n < nat (b - a) \<Longrightarrow> xrange a b ! n = a + int n"
  by (simp add: xrange_eq)

lemma set_xrange: "set (xrange a b) = {i. a \<le> i \<and> i < b}"
proof -
  have "\<And>i. a \<le> i \<Longrightarrow> i < b \<Longrightarrow> i \<in> (\<lambda>k. a + int k) ` {0..<nat (b - a)}"
  proof -
    fix i assume "a \<le> i" "i < b"
    then have "i = a + int (nat (i - a))" "nat (i - a) \<in> {0..<nat (b - a)}" by auto
    then show "i \<in> (\<lambda>k. a + int k) ` {0..<nat (b - a)}" by (rule image_eqI)
  qed
  then show ?thesis by (auto simp: xrange_eq)
qed

lemma xrange_down_3: "xrange_down 3 0 (- 1) = [3, 2, 1]"
  by (simp add: xrange_down.simps)

lemma index_expressions_unfold:
  "index_expressions L =
     map (batched_call 3) (xrange 0 (L div 4096))
     @ map (batched_call 2) (xrange 0 (L mod 4096 div 256))
     @ map (batched_call 1) (xrange 0 (L mod 4096 mod 256 div 16))
     @ map (explicit_lookup L) (xrange 0 (L mod 4096 mod 256 mod 16))"
  by (simp add: index_expressions_def xrange_down_3 indexing_step_def Let_def)

lemma str_small: "str 1 = ''1''" "str 2 = ''2''" "str 3 = ''3''"
  by (simp_all add: str_def str_nat.simps digit_char_def)

lemma count_batched_append:
  "count_batched e (xs @ ys) = count_batched e xs + count_batched e ys"
  by (simp add: count_batched_def)

lemma count_explicit_append:
  "count_explicit (xs @ ys) = count_explicit xs + count_explicit ys"
  by (simp add: count_explicit_def)

lemma filter_map_all: "(\<And>x. P (f x)) \<Longrightarrow> filter P (map f xs) = map f xs"
  by (induction xs) auto

lemma filter_map_none: "(\<And>x. \<not> P (f x)) \<Longrightarrow> filter P (map f xs) = []"
  by (induction xs) auto

lemma count_batched_same:
  "count_batched 1 (map (batched_call 1) is) = length is"
  "count_batched 2 (map (batched_call 2) is) = length is"
  "count_batched 3 (map (batched_call 3) is) = length is"
  unfolding count_batched_def
  by (subst filter_map_all; simp add: batched_call_def str_small)+

lemma count_batched_other:
  "count_batched 1 (map (batched_call 2) is) = 0"
  "count_batched 1 (map (batched_call 3) is) = 0"
  "count_batched 2 (map (batched_call 1) is) = 0"
  "count_batched 2 (map (batched_call 3) is) = 0"
  "count_batched 3 (map (batched_call 1) is) = 0"
  "count_batched 3 (map (batched_call 2) is) = 0"
  unfolding count_batched_def
  by (subst filter_map_none; simp add: batched_call_def str_small)+

lemma count_batched_explicit:
  "count_batched 1 (map (explicit_lookup L) is) = 0"
  "count_batched 2 (map (explicit_lookup L) is) = 0"
  "count_batched 3 (map (explicit_lookup L) is) = 0"
  unfolding count_batched_def
  by (subst filter_map_none; simp add: explicit_lookup_def str_small)+

lemma count_explicit_batched:
  "count_explicit (map (batched_call e) is) = 0"
  unfolding count_explicit_def
  by (subst filter_map_none; simp add: batched_call_def)

lemma count_explicit_same:
  "count_explicit (map (explicit_lookup L) is) = length is"
  unfolding count_explicit_def
  by (subst filter_map_all; simp add: explicit_lookup_def VERSION_def str_small)

lemmas count_simps = count_batched_append count_explicit_append count_batched_same
  count_batched_other count_batched_explicit count_explicit_batched count_explicit_same

lemma index_expressions_counts:
  "count_batched 3 (index_expressions L) = nat (L div 4096)"
  "count_batched 2 (index_expressions L) = nat (L mod 4096 div 256)"
  "count_batched 1 (index_expressions L) = nat (L mod 4096 mod 256 div 16)"
  "count_explicit (index_expressions L) = nat (L mod 4096 mod 256 mod 16)"
  by (simp_all only: index_expressions_unfold count_simps length_xrange diff_0_right add_0 add_0_right)


lemma radix_sum: "L div 4096 * 4096 + L mod 4096 div 256 * 256 + L mod 4096 mod 256 div 16 * 16
            + L mod 4096 mod 256 mod 16 = (L::int)"
  by (simp add: ac_simps)

lemma radix_nonneg:
  "0 \<le> (L::int) \<Longrightarrow> 0 \<le> L div 4096 \<and> 0 \<le> L mod 4096 div 256
     \<and> 0 \<le> L mod 4096 mod 256 div 16 \<and> 0 \<le> L mod 4096 mod 256 mod 16"
  by (simp add: pos_imp_zdiv_nonneg_iff)

lemma re_match_digits_plus:
  "re_match (DigitsPlus # p) s \<longleftrightarrow>
     (\<exists>ds rest. ds \<noteq> [] \<and> list_all is_digit ds \<and> s = ds @ rest \<and> re_match p rest)"
proof (induction s)
  case Nil
  then show ?case by simp
next
  case (Cons x xs)
  show ?case
  proof
    assume m: "re_match (DigitsPlus # p) (x # xs)"
    then have d: "is_digit x" by simp
    from m have "re_match (DigitsPlus # p) xs \<or> re_match p xs" by simp
    then show "\<exists>ds rest. ds \<noteq> [] \<and> list_all is_digit ds \<and> x # xs = ds @ rest \<and> re_match p rest"
    proof
      assume "re_match (DigitsPlus # p) xs"
      with Cons.IH obtain ds rest where
        "ds \<noteq> []" "list_all is_digit ds" "xs = ds @ rest" "re_match p rest" by blast
      with d have "x # ds \<noteq> [] \<and> list_all is_digit (x # ds) \<and> x # xs = (x # ds) @ rest \<and> re_match p rest"
        by simp
      then show ?thesis by blast
    next
      assume "re_match p xs"
      with d have "[x] \<noteq> [] \<and> list_all is_digit [x] \<and> x # xs = [x] @ xs \<and> re_match p xs"
        by simp
      then show ?thesis by blast
    qed
  next
    assume "\<exists>ds rest. ds \<noteq> [] \<and> list_all is_digit ds \<and> x # xs = ds @ rest \<and> re_match p rest"
    then obtain ds rest where h: "ds \<noteq> []" "list_all is_digit ds" "x # xs = ds @ rest" "re_match p rest"
      by blast
    then obtain d ds' where ds: "ds = d # ds'" by (cases ds) auto
    with h have x: "x = d" "xs = ds' @ rest" "is_digit x" "list_all is_digit ds'" by auto
    show "re_match (DigitsPlus # p) (x # xs)"
    proof (cases "ds' = []")
      case True
      with x h show ?thesis by simp
    next
      case False
      with x h Cons.IH have "re_match (DigitsPlus # p) xs" by blast
      with x show ?thesis by simp
    qed
  qed
qed

lemma re_match_lits:
  "re_match (map Lit cs @ p) s \<longleftrightarrow> (\<exists>rest. s = cs @ rest \<and> re_match p rest)"
proof (induction cs arbitrary: s)
  case Nil
  then show ?case by simp
next
  case (Cons c cs)
  then show ?case by (cases s) auto
qed

lemma re_match_any:
  "re_match (AnyChar # p) s \<longleftrightarrow> (\<exists>c rest. c \<noteq> CHR ''\<newline>'' \<and> s = c # rest \<and> re_match p rest)"
  by (cases s) auto

lemma string_header_match:
  "re_match string_header name \<longleftrightarrow>
     (\<exists>ds c rest. ds \<noteq> [] \<and> list_all is_digit ds \<and> c \<noteq> CHR ''\<newline>''
        \<and> name = ''string'' @ ds @ c # ''hpp'' @ rest)"
proof -
  have "re_match string_header name \<longleftrightarrow>
        (\<exists>r1. name = ''string'' @ r1 \<and> re_match ([DigitsPlus, AnyChar] @ map Lit ''hpp'' @ []) r1)"
    unfolding string_header_def by (simp only: re_match_lits append_Nil2)
  also have "\<dots> \<longleftrightarrow> (\<exists>ds c rest. ds \<noteq> [] \<and> list_all is_digit ds \<and> c \<noteq> CHR ''\<newline>''
        \<and> name = ''string'' @ ds @ c # ''hpp'' @ rest)"
    apply (simp only: append_Cons append_Nil re_match_digits_plus re_match_any re_match_lits re_match.simps)
    apply (rule iffI)
     apply (elim exE conjE)
     apply (intro exI conjI; simp; fail)
    apply (elim exE conjE)
    apply (intro exI conjI; (simp; fail)?)
    done
  finally show ?thesis .
qed

lemma remove_file_apply:
  "remove_file undeletable fname dir name =
     (if name = fname \<and> fname \<notin> undeletable then None else dir name)"
  by (simp add: remove_file_def os_remove_def)

lemma if_then_none_or:
  "(if R \<and> U then None else (if A \<and> U then None else x)) = (if (A \<or> R) \<and> U then None else x)"
  by simp

lemma remove_six:
  "(remove_file u f (remove_file u e (remove_file u d (remove_file u c (remove_file u b
      (remove_file u a dir)))))) name
     = (if name \<in> {a, b, c, d, e, f} \<and> name \<notin> u then None else dir name)"
  by (auto simp: remove_file_apply)

lemma remove_string_headers_apply:
  "remove_string_headers u dir name =
     (if re_match string_header name \<and> name \<notin> u then None else dir name)"
  by (simp add: remove_string_headers_def remove_file_apply)

lemma remove_old_headers_unfold:
  "remove_old_headers u dir =
     remove_string_headers u
       (remove_file u ''undef_string.hpp'' (remove_file u ''undef_enum_constant.hpp''
         (remove_file u ''undef_enum_params.hpp'' (remove_file u ''string.hpp''
           (remove_file u ''enum_constant.hpp'' (remove_file u ''enum_params.hpp'' dir))))))"
  by (simp only: remove_old_headers_def fold.simps o_apply id_apply append.simps)

lemma remove_old_headers_apply:
  "remove_old_headers u dir name =
     (if (name \<in> {''enum_params.hpp'', ''enum_constant.hpp'', ''string.hpp'',
                   ''undef_enum_params.hpp'', ''undef_enum_constant.hpp'', ''undef_string.hpp''}
          \<or> re_match string_header name) \<and> name \<notin> u
      then None else dir name)"
  unfolding remove_old_headers_unfold remove_string_headers_apply remove_six
  by (rule if_then_none_or)

lemma string_header_examples:
  "re_match string_header ''string12xhpp''" "re_match string_header ''string12.hpp.bak''"
  by (simp_all add: string_header_def is_digit_def)

lemma length_limits_eval:
  "length_limits 3 2 = Inr [''2'']"
  "length_limits 5 1 = Inr [''1'', ''2'', ''3'', ''4'']"
  "length_limits 129 128 = Inr [''128'']"
  by (simp_all add: length_limits_def xrange3_def xrange_up.simps str_def str_nat.simps
        digit_char_def zfill_def)

lemma define_macro_cases:
  "define_macro (name, args, body) True check = ''#undef '' @ macro_name name @ ''\<newline>''"
  "define_macro (name, args, body) False True =
       ''#ifdef '' @ macro_name name @ ''\<newline>''
       @ ''#  error '' @ macro_name name @ '' already defined.\<newline>''
       @ ''#endif\<newline>''
       @ define_macro (name, args, body) False False"
  "define_macro (name, args, body) False False =
       ''#define '' @ macro_name name
       @ (if args = [] then [] else ''('' @ join '', '' args @ '')'')
       @ '' '' @ body @ ''\<newline>''"
  by (simp_all add: define_macro_def)

lemma macros_check_flags:
  "map snd (enum_macros name internal_name max_count)
     = True # replicate (Suc (Suc (nat (max_count - 1)))) False"
  "map snd (repetition_macros name internal_name max_count)
     = True # replicate (Suc (Suc (nat (max_count - 1)))) False"
  by (simp_all add: enum_macros_def repetition_macros_def length_xrange comp_def
        map_replicate_const replicate_app_Cons_same)

section \<open>Properties of the generator\<close>

text \<open>
  The counts of the four kinds of expression do add up: for every length limit
  \<open>L \<ge> 1\<close>, the number of weight-\<open>16^3\<close> batched calls times 4096, plus the number of
  weight-\<open>16^2\<close> batched calls times 256, plus the number of weight-\<open>16^1\<close> batched calls
  times 16, plus the number of explicit lookups, is \<open>L\<close>; there are fewer than 16 explicit
  lookups; and every expression is of one of these four kinds.
\<close>

lemma index_expressions_cover:
  assumes "1 \<le> L"
  shows "int (count_batched 3 (index_expressions L)) * 4096
         + int (count_batched 2 (index_expressions L)) * 256
         + int (count_batched 1 (index_expressions L)) * 16
         + int (count_explicit (index_expressions L)) = L
       \<and> count_explicit (index_expressions L) < 16
       \<and> length (index_expressions L)
           = count_batched 3 (index_expressions L) + count_batched 2 (index_expressions L)
             + count_batched 1 (index_expressions L) + count_explicit (index_expressions L)"
proof -
  from assms have "0 \<le> L" by simp
  note nn = radix_nonneg [OF this]
  have i3: "int (nat (L div 4096)) = L div 4096" using nn by simp
  have i2: "int (nat (L mod 4096 div 256)) = L mod 4096 div 256" using nn by simp
  have i1: "int (nat (L mod 4096 mod 256 div 16)) = L mod 4096 mod 256 div 16" using nn by simp
  have i0: "int (nat (L mod 4096 mod 256 mod 16)) = L mod 4096 mod 256 mod 16" using nn by simp
  have lt: "nat (L mod 4096 mod 256 mod 16) < 16"
  proof -
    have "L mod 4096 mod 256 mod 16 < 16" by simp
    then show ?thesis by linarith
  qed
  have len: "length (index_expressions L) = nat (L div 4096) + nat (L mod 4096 div 256)
      + nat (L mod 4096 mod 256 div 16) + nat (L mod 4096 mod 256 mod 16)"
    by (simp only: index_expressions_unfold length_append length_map length_xrange
          diff_0_right add.assoc)
  show ?thesis
    unfolding index_expressions_counts i3 i2 i1 i0
    using radix_sum [of L] lt len by (simp only: simp_thms)
qed

subsection \<open>The positions addressed\<close>

lemma index_structure_unfold:
  "index_structure L =
     map (Batched 3) (xrange 0 (L div 4096))
     @ map (Batched 2) (xrange 0 (L mod 4096 div 256))
     @ map (Batched 1) (xrange 0 (L mod 4096 mod 256 div 16))
     @ map (Explicit L) (xrange 0 (L mod 4096 mod 256 mod 16))"
  by (simp add: index_structure_def xrange_down_3 structure_step_def Let_def)

lemma index_expressions_render: "index_expressions L = map render (index_structure L)"
  by (simp add: index_expressions_unfold index_structure_unfold comp_def)

lemma xrange_empty: "b \<le> a \<Longrightarrow> xrange a b = []"
  by (simp add: xrange_eq)

lemma xrange_0_1: "xrange 0 1 = [0]"
  by (simp add: xrange_def xrange_up.simps)

lemma xrange_0_8: "xrange 0 8 = [0, 1, 2, 3, 4, 5, 6, 7]"
  by (simp add: xrange_def xrange_up.simps)

lemma index_structure_17: "index_structure 17 = [Batched 1 0, Explicit 17 0]"
  by (simp add: index_structure_unfold xrange_empty xrange_0_1)

lemma index_structure_128: "index_structure 128 = map (Batched 1) [0, 1, 2, 3, 4, 5, 6, 7]"
  by (simp add: index_structure_unfold xrange_empty xrange_0_8)

lemma index_structure_256: "index_structure 256 = [Batched 2 0]"
  by (simp add: index_structure_unfold xrange_empty xrange_0_1)

lemma index_structure_384:
  "index_structure 384 = Batched 2 0 # map (Batched 1) [0, 1, 2, 3, 4, 5, 6, 7]"
  by (simp add: index_structure_unfold xrange_empty xrange_0_1 xrange_0_8)

lemma index_expressions_17:
  "index_expressions 17 =
     [''BOOST_METAPARSE_V1_STRING_AT1((s), 0)'',
      ''::boost::metaparse::v1::impl::string_at<17>((s), 0)'']"
  by (simp add: index_expressions_render index_structure_17 batched_call_def
        explicit_lookup_def VERSION_def str_def str_nat.simps format_X_def hex_nat.simps
        digit_char_def)

lemma block_positions_1_0:
  "block_positions 1 0 = [0, 1, 2, 3, 4, 5, 6, 7, 8, 9, 10, 11, 12, 13, 14, 15]"
  by (simp add: block_positions_def xrange_def xrange_up.simps)

lemma addressed_positions_17:
  "addressed_positions block_positions 17
     = [0, 1, 2, 3, 4, 5, 6, 7, 8, 9, 10, 11, 12, 13, 14, 15, 0]"
  by (simp add: addressed_positions_def index_structure_17 block_positions_1_0)

lemma not_covers_17: "\<not> covers_exactly block_positions 17"
  by (simp add: covers_exactly_def addressed_positions_17)

lemma zero_in_block: "0 < exp \<Longrightarrow> 0 \<in> set (block_positions exp 0)"
  by (simp add: block_positions_def set_xrange)

lemma addressed_positions_384:
  "addressed_positions block 384
     = block 2 0 @ concat (map (block 1) [0, 1, 2, 3, 4, 5, 6, 7])"
  by (simp add: addressed_positions_def index_structure_384 comp_def)

lemma addressed_positions_128:
  "addressed_positions block 128 = concat (map (block 1) [0, 1, 2, 3, 4, 5, 6, 7])"
  by (simp add: addressed_positions_def index_structure_128 comp_def)

lemma addressed_positions_256: "addressed_positions block 256 = block 2 0"
  by (simp add: addressed_positions_def index_structure_256)

text \<open>
  Whatever positions the batched calls address, as long as these depend on the weight
  and the index of the call only, the expressions for 128, 256 and 384 cannot all
  address their positions exactly once: those for 384 are those for 256 followed by
  those for 128.
\<close>

lemma no_block_numbering_covers:
  "\<not> (covers_exactly block 128 \<and> covers_exactly block 256 \<and> covers_exactly block 384)"
proof
  assume h: "covers_exactly block 128 \<and> covers_exactly block 256 \<and> covers_exactly block 384"
  have z: "(0::int) \<in> set (xrange 0 128)" "(0::int) \<in> set (xrange 0 256)"
    by (simp_all add: set_xrange)
  from h z have a: "0 \<in> set (concat (map (block 1) [0, 1, 2, 3, 4, 5, 6, 7]))"
    unfolding covers_exactly_def addressed_positions_128 by (simp only:)
  from h z have b: "0 \<in> set (block 2 0)"
    unfolding covers_exactly_def addressed_positions_256 by (simp only:)
  from h have "distinct (block 2 0 @ concat (map (block 1) [0, 1, 2, 3, 4, 5, 6, 7]))"
    unfolding covers_exactly_def addressed_positions_384 by (simp only:)
  then have "set (block 2 0) \<inter> set (concat (map (block 1) [0, 1, 2, 3, 4, 5, 6, 7])) = {}"
    by (simp only: distinct_append)
  with a b show False by blast
qed

lemma not_covers_384: "\<not> covers_exactly block_positions 384"
proof
  assume h: "covers_exactly block_positions 384"
  have a: "0 \<in> set (block_positions 2 0)" by (rule zero_in_block) simp
  have "0 \<in> set (block_positions 1 0)" by (rule zero_in_block) simp
  then have b: "0 \<in> set (concat (map (block_positions 1) [0, 1, 2, 3, 4, 5, 6, 7]))"
    by simp
  from h have "distinct (block_positions 2 0
      @ concat (map (block_positions 1) [0, 1, 2, 3, 4, 5, 6, 7]))"
    unfolding covers_exactly_def addressed_positions_384 by (simp only:)
  then have "set (block_positions 2 0)
      \<inter> set (concat (map (block_positions 1) [0, 1, 2, 3, 4, 5, 6, 7])) = {}"
    by (simp only: distinct_append)
  with a b show False by blast
qed

text \<open>
  C1. The claim has the index expressions cover the positions \<open>0 .. L - 1\<close> with no gaps
  and no overlaps. The code numbers the batched calls of every weight, and the explicit
  lookups, from 0 again. For the length limit 17 it emits the batched call of weight
  \<open>16^1\<close> with index 0 and the explicit lookup of position 0: position 0 is addressed
  twice and position 16 never. For the length limit 384, one of the default limits, it
  emits the batched call of weight \<open>16^2\<close> with index 0 and the batched calls of weight
  \<open>16^1\<close> with the indices 0 to 7: the positions 0 to 127 are addressed twice and the
  positions from 256 on never.
\<close>

theorem index_positions_overlap:
  "index_expressions 17 =
     [''BOOST_METAPARSE_V1_STRING_AT1((s), 0)'',
      ''::boost::metaparse::v1::impl::string_at<17>((s), 0)'']
   \<and> index_expressions 17 = map render (index_structure 17)
   \<and> index_structure 17 = [Batched 1 0, Explicit 17 0]
   \<and> addressed_positions block_positions 17
       = [0, 1, 2, 3, 4, 5, 6, 7, 8, 9, 10, 11, 12, 13, 14, 15, 0]
   \<and> \<not> covers_exactly block_positions 17
   \<and> index_expressions 384 = map render (index_structure 384)
   \<and> index_structure 384 = Batched 2 0 # map (Batched 1) [0, 1, 2, 3, 4, 5, 6, 7]
   \<and> addressed_positions block_positions 384
       = block_positions 2 0 @ concat (map (block_positions 1) [0, 1, 2, 3, 4, 5, 6, 7])
   \<and> \<not> covers_exactly block_positions 384"
  using index_expressions_17 index_expressions_render [of 17] index_structure_17
    addressed_positions_17 not_covers_17 index_expressions_render [of 384]
    index_structure_384 addressed_positions_384 [of block_positions] not_covers_384
  by (intro conjI)

text \<open>
  C2. The claim has \<open>length_limits(M, S)\<close> produce the multiples of \<open>S\<close> not exceeding
  \<open>M + S - 1\<close>, ending at the next step boundary when \<open>M\<close> is not a multiple of \<open>S\<close>.
  The stop value \<open>M + S - 1\<close> of \<open>xrange\<close> is exclusive, so the boundary is lost
  whenever \<open>M - 1\<close> is a multiple of \<open>S\<close>: for \<open>M = 3\<close>, \<open>S = 2\<close> the code stops at 2
  instead of 4, for \<open>M = 5\<close>, \<open>S = 1\<close> it stops at 4 and never reaches the maximum
  itself, and for \<open>M = 129\<close>, \<open>S = 128\<close> it stops at 128.
\<close>

theorem length_limits_boundary_lost:
  "length_limits 3 2 = Inr [''2'']
   \<and> length_limits 5 1 = Inr [''1'', ''2'', ''3'', ''4'']
   \<and> length_limits 129 128 = Inr [''128'']"
  by (simp only: length_limits_eval simp_thms)

text \<open>
  C6. \<open>define_macro\<close> with \<open>undefine\<close> true writes the single line \<open>#undef\<close> of the
  full macro name, whatever \<open>check\<close>, body and arguments are; with \<open>undefine\<close> false and
  \<open>check\<close> true it writes the \<open>#ifdef\<close>/\<open>#error\<close>/\<open>#endif\<close> block for the full name
  and then exactly what it writes with \<open>check\<close> false, which is the \<open>#define\<close> line
  alone. In both macro families the dispatcher is the one macro defined with \<open>check\<close>
  true, and every helper macro is defined with \<open>check\<close> false.
\<close>

theorem define_macro_behaviour:
  "define_macro (name, args, body) True check = ''#undef '' @ macro_name name @ ''\<newline>''
   \<and> define_macro (name, args, body) False True =
       ''#ifdef '' @ macro_name name @ ''\<newline>''
       @ ''#  error '' @ macro_name name @ '' already defined.\<newline>''
       @ ''#endif\<newline>''
       @ define_macro (name, args, body) False False
   \<and> define_macro (name, args, body) False False =
       ''#define '' @ macro_name name
       @ (if args = [] then [] else ''('' @ join '', '' args @ '')'')
       @ '' '' @ body @ ''\<newline>''
   \<and> map snd (enum_macros family internal_name max_count)
       = True # replicate (Suc (Suc (nat (max_count - 1)))) False
   \<and> map snd (repetition_macros family internal_name max_count)
       = True # replicate (Suc (Suc (nat (max_count - 1)))) False"
  by (simp only: define_macro_cases macros_check_flags simp_thms)

text \<open>
  C8. \<open>length_limits(2048, 128)\<close> is the list of the 16 strings \<open>0128\<close>, \<open>0256\<close>, ...,
  \<open>2048\<close>: the multiples of 128 from 128 to 2048 in increasing order, each padded with
  zeros to four digits.
\<close>

theorem length_limits_default:
  "length_limits 2048 128 =
     Inr [''0128'', ''0256'', ''0384'', ''0512'', ''0640'', ''0768'', ''0896'', ''1024'',
          ''1152'', ''1280'', ''1408'', ''1536'', ''1664'', ''1792'', ''1920'', ''2048'']"
  by (simp add: length_limits_def xrange3_def xrange_up.simps str_def str_nat.simps
        digit_char_def zfill_def)

text \<open>
  C10, as amended. \<open>remove_old_headers\<close> calls \<open>remove_file\<close> for the six fixed-name
  headers and for every entry whose name the pattern \<open>string[0-9]+.hpp\<close> matches from
  its start; such an entry is deleted unless \<open>os.remove\<close> cannot delete it, in which case
  it stays, and every other entry stays. The pattern matches exactly the names that
  consist of \<open>string\<close>, one or more digits, any one character but a newline, \<open>hpp\<close>, and
  then anything: among them \<open>string12xhpp\<close> and \<open>string12.hpp.bak\<close>, which are not of
  the form \<open>stringN.hpp\<close>.
\<close>

theorem remove_old_headers_deletes:
  "remove_old_headers undeletable dir name =
     (if (name \<in> {''enum_params.hpp'', ''enum_constant.hpp'', ''string.hpp'',
                   ''undef_enum_params.hpp'', ''undef_enum_constant.hpp'', ''undef_string.hpp''}
          \<or> re_match string_header name) \<and> name \<notin> undeletable
      then None else dir name)
   \<and> (re_match string_header name \<longleftrightarrow>
        (\<exists>ds c rest. ds \<noteq> [] \<and> list_all is_digit ds \<and> c \<noteq> CHR ''\<newline>''
           \<and> name = ''string'' @ ds @ c # ''hpp'' @ rest))
   \<and> re_match string_header ''string12xhpp''
   \<and> re_match string_header ''string12.hpp.bak''"
  using remove_old_headers_apply [of undeletable dir name] string_header_match [of name]
    string_header_examples
  by (simp only: simp_thms)

theorem remove_old_headers_deletes_witness:
  "remove_old_headers {} [''string12xhpp'' \<mapsto> ''a'', ''string12.hpp.bak'' \<mapsto> ''b''] ''string12xhpp'' = None
   \<and> remove_old_headers {} [''string12xhpp'' \<mapsto> ''a'', ''string12.hpp.bak'' \<mapsto> ''b''] ''string12.hpp.bak'' = None"
  using remove_old_headers_deletes [of "{}" "[''string12xhpp'' \<mapsto> ''a'', ''string12.hpp.bak'' \<mapsto> ''b'']" "''string12xhpp''"]
    remove_old_headers_deletes [of "{}" "[''string12xhpp'' \<mapsto> ''a'', ''string12.hpp.bak'' \<mapsto> ''b'']" "''string12.hpp.bak''"]
  by (simp only: simp_thms empty_iff not_False_eq_True if_True)

text \<open>
  C10 as stated has the dot match any single character and every matching entry
  deleted. The name that has a newline where the dot stands is given by the claim's
  reading of the pattern, yet the pattern does not match it and the entry stays; and an
  entry named \<open>string12.hpp\<close> that \<open>os.remove\<close> cannot delete, a subdirectory for one, is
  matched and stays.
\<close>

theorem remove_old_headers_keeps_counterexample:
  "\<not> re_match string_header ''string12\<newline>hpp''
   \<and> remove_old_headers {} [''string12\<newline>hpp'' \<mapsto> ''a''] ''string12\<newline>hpp'' = Some ''a''
   \<and> re_match string_header ''string12.hpp''
   \<and> remove_old_headers {''string12.hpp''} [''string12.hpp'' \<mapsto> ''a''] ''string12.hpp'' = Some ''a''"
proof -
  have m: "\<not> re_match string_header ''string12\<newline>hpp''" "re_match string_header ''string12.hpp''"
    by (simp_all add: string_header_def is_digit_def)
  show ?thesis
    unfolding remove_old_headers_apply using m by simp
qed

subsection \<open>The macro lists\<close>

lemma nth_drop3: "(a # b # c # xs) ! Suc (Suc (Suc n)) = xs ! n"
  by simp

lemma enum_macros_nth:
  assumes "2 \<le> k" "k \<le> N"
  shows "enum_macros name internal N ! (nat k + 1) = (enum_helper internal k, False)"
proof -
  have idx: "nat k + 1 = Suc (Suc (Suc (nat k - 2)))" using assms by linarith
  have lt: "nat k - 2 < nat (N + 1 - 2)" using assms by linarith
  have v: "2 + int (nat k - 2) = k" using assms by linarith
  have "enum_macros name internal N ! (nat k + 1)
        = map (\<lambda>count. (enum_helper internal count, False)) (xrange 2 (N + 1)) ! (nat k - 2)"
    unfolding enum_macros_def idx by (simp only: append_Cons append_Nil nth_drop3)
  also have "\<dots> = (enum_helper internal (xrange 2 (N + 1) ! (nat k - 2)), False)"
    using lt by (simp only: nth_map length_xrange)
  also have "xrange 2 (N + 1) ! (nat k - 2) = k"
    using nth_xrange [OF lt] v by (simp only:)
  finally show ?thesis .
qed

lemma repetition_macros_nth:
  assumes "2 \<le> k" "k \<le> N"
  shows "repetition_macros name internal N ! (nat k + 1) = (repetition_helper internal k, False)"
proof -
  have idx: "nat k + 1 = Suc (Suc (Suc (nat k - 2)))" using assms by linarith
  have lt: "nat k - 2 < nat (N + 1 - 2)" using assms by linarith
  have v: "2 + int (nat k - 2) = k" using assms by linarith
  have "repetition_macros name internal N ! (nat k + 1)
        = map (\<lambda>count. (repetition_helper internal count, False)) (xrange 2 (N + 1)) ! (nat k - 2)"
    unfolding repetition_macros_def idx by (simp only: append_Cons append_Nil nth_drop3)
  also have "\<dots> = (repetition_helper internal (xrange 2 (N + 1) ! (nat k - 2)), False)"
    using lt by (simp only: nth_map length_xrange)
  also have "xrange 2 (N + 1) ! (nat k - 2) = k"
    using nth_xrange [OF lt] v by (simp only:)
  finally show ?thesis .
qed

lemma macros_helper_0:
  "fst (enum_macros name internal N ! 1) = (internal @ ''0'', [''param''], [])"
  "fst (repetition_macros name internal N ! 1) = (internal @ ''0'', [''param''], [])"
  by (simp_all add: enum_macros_def repetition_macros_def)

lemma macro_name_append: "macro_name (a @ b) = macro_name a @ b"
  by (simp add: macro_name_def)

lemma enum_helper_prefix:
  "fst (enum_helper internal k) = internal @ str k"
  "strict_prefix (macro_name (internal @ str (k - 1)) @ ''(param)'') (snd (snd (enum_helper internal k)))"
  by (simp_all add: enum_helper_def macro_name_append strict_prefix_def)

lemma repetition_helper_prefix:
  "fst (repetition_helper internal k) = internal @ str k"
  "strict_prefix (macro_name (internal @ str (k - 1)) @ ''(param)'') (snd (snd (repetition_helper internal k)))"
  by (simp_all add: repetition_helper_def macro_name_append strict_prefix_def)

lemma helper_before:
  assumes "2 \<le> k" "k \<le> N"
  shows "fst (fst (enum_macros name internal N ! nat k)) = internal @ str (k - 1)"
    and "fst (fst (repetition_macros name internal N ! nat k)) = internal @ str (k - 1)"
proof -
  show "fst (fst (enum_macros name internal N ! nat k)) = internal @ str (k - 1)"
  proof (cases "k = 2")
    case True
    then show ?thesis by (simp add: enum_macros_def str_small)
  next
    case False
    with assms have "2 \<le> k - 1" "k - 1 \<le> N" "nat (k - 1) + 1 = nat k" by simp_all
    then show ?thesis
      using enum_macros_nth [of "k - 1" N name internal] by (simp add: enum_helper_def)
  qed
  show "fst (fst (repetition_macros name internal N ! nat k)) = internal @ str (k - 1)"
  proof (cases "k = 2")
    case True
    then show ?thesis by (simp add: repetition_macros_def str_small)
  next
    case False
    with assms have "2 \<le> k - 1" "k - 1 \<le> N" "nat (k - 1) + 1 = nat k" by simp_all
    then show ?thesis
      using repetition_macros_nth [of "k - 1" N name internal] by (simp add: repetition_helper_def)
  qed
qed

lemma macros_length:
  "1 \<le> N \<Longrightarrow> length (enum_macros name internal N) = nat N + 2"
  "1 \<le> N \<Longrightarrow> length (repetition_macros name internal N) = nat N + 2"
  by (simp_all add: enum_macros_def repetition_macros_def length_xrange)

lemma filename_lookup: "(dir(fname \<mapsto> text)) fname = Some text"
  by simp

lemma generate_family_files:
  "fst (generate_enum name internal N undefine dir) (filename name undefine)
     = Some (write_no_include_guard_info @ write_autogen_info
             @ define_macros (enum_macros name internal N) undefine)"
  "fst (generate_repetition name internal N undefine dir) (filename name undefine)
     = Some (write_no_include_guard_info @ write_autogen_info
             @ define_macros (repetition_macros name internal N) undefine)"
  by (simp_all only: generate_enum_def generate_repetition_def write_file_def fst_conv
        filename_lookup)

text \<open>
  C3. For every maximum count \<open>N \<ge> 1\<close>, \<open>generate_enum\<close> and \<open>generate_repetition\<close> write
  the definitions of a list of \<open>N + 2\<close> macros, the dispatcher and the helpers 0 to \<open>N\<close>.
  Helper 0 (the second macro) has the empty body. For every \<open>k\<close> with \<open>2 \<le> k \<le> N\<close>, the
  macro defined just before helper \<open>k\<close> is helper \<open>k - 1\<close>, and the body of helper \<open>k\<close> has
  the call of helper \<open>k - 1\<close> (its full macro name applied to \<open>param\<close>) as a strict prefix.
\<close>

theorem helper_chain:
  assumes "1 \<le> N"
  shows "fst (generate_enum name internal N undefine dir) (filename name undefine)
           = Some (write_no_include_guard_info @ write_autogen_info
                   @ define_macros (enum_macros name internal N) undefine)
       \<and> fst (generate_repetition name internal N undefine dir) (filename name undefine)
           = Some (write_no_include_guard_info @ write_autogen_info
                   @ define_macros (repetition_macros name internal N) undefine)
       \<and> length (enum_macros name internal N) = nat N + 2
       \<and> length (repetition_macros name internal N) = nat N + 2
       \<and> fst (enum_macros name internal N ! 1) = (internal @ ''0'', [''param''], [])
       \<and> fst (repetition_macros name internal N ! 1) = (internal @ ''0'', [''param''], [])
       \<and> (\<forall>k. 2 \<le> k \<and> k \<le> N \<longrightarrow>
            fst (fst (enum_macros name internal N ! nat k)) = internal @ str (k - 1)
            \<and> fst (fst (enum_macros name internal N ! (nat k + 1))) = internal @ str k
            \<and> strict_prefix (macro_name (internal @ str (k - 1)) @ ''(param)'')
                 (snd (snd (fst (enum_macros name internal N ! (nat k + 1)))))
            \<and> fst (fst (repetition_macros name internal N ! nat k)) = internal @ str (k - 1)
            \<and> fst (fst (repetition_macros name internal N ! (nat k + 1))) = internal @ str k
            \<and> strict_prefix (macro_name (internal @ str (k - 1)) @ ''(param)'')
                 (snd (snd (fst (repetition_macros name internal N ! (nat k + 1))))))"
proof -
  have chain: "\<forall>k. 2 \<le> k \<and> k \<le> N \<longrightarrow>
            fst (fst (enum_macros name internal N ! nat k)) = internal @ str (k - 1)
            \<and> fst (fst (enum_macros name internal N ! (nat k + 1))) = internal @ str k
            \<and> strict_prefix (macro_name (internal @ str (k - 1)) @ ''(param)'')
                 (snd (snd (fst (enum_macros name internal N ! (nat k + 1)))))
            \<and> fst (fst (repetition_macros name internal N ! nat k)) = internal @ str (k - 1)
            \<and> fst (fst (repetition_macros name internal N ! (nat k + 1))) = internal @ str k
            \<and> strict_prefix (macro_name (internal @ str (k - 1)) @ ''(param)'')
                 (snd (snd (fst (repetition_macros name internal N ! (nat k + 1)))))"
  proof (intro allI impI)
    fix k assume "2 \<le> k \<and> k \<le> N"
    then have k: "2 \<le> k" "k \<le> N" by simp_all
    show "fst (fst (enum_macros name internal N ! nat k)) = internal @ str (k - 1)
            \<and> fst (fst (enum_macros name internal N ! (nat k + 1))) = internal @ str k
            \<and> strict_prefix (macro_name (internal @ str (k - 1)) @ ''(param)'')
                 (snd (snd (fst (enum_macros name internal N ! (nat k + 1)))))
            \<and> fst (fst (repetition_macros name internal N ! nat k)) = internal @ str (k - 1)
            \<and> fst (fst (repetition_macros name internal N ! (nat k + 1))) = internal @ str k
            \<and> strict_prefix (macro_name (internal @ str (k - 1)) @ ''(param)'')
                 (snd (snd (fst (repetition_macros name internal N ! (nat k + 1)))))"
      using k
      by (simp only: helper_before enum_macros_nth repetition_macros_nth fst_conv
            enum_helper_prefix repetition_helper_prefix simp_thms)
  qed
  show ?thesis
    using chain macros_length [OF assms, of name internal] macros_helper_0 [of name internal N]
      generate_family_files [of name internal N undefine dir]
    by (intro conjI)
qed

theorem helper_chain_witness:
  "(1::int) \<le> 1
   \<and> length (enum_macros ''ENUM_PARAMS'' ''EP'' 1) = 3
   \<and> fst (enum_macros ''ENUM_PARAMS'' ''EP'' 1 ! 1) = (''EP0'', [''param''], [])
   \<and> fst (repetition_macros ''ENUM_CONSTANT'' ''EC'' 1 ! 1) = (''EC0'', [''param''], [])
   \<and> (1::int) \<le> 3 \<and> (2::int) \<le> 3 \<and> (3::int) \<le> 3
   \<and> fst (fst (enum_macros ''ENUM_PARAMS'' ''EP'' 3 ! 3)) = ''EP2''
   \<and> fst (fst (enum_macros ''ENUM_PARAMS'' ''EP'' 3 ! 4)) = ''EP3''
   \<and> strict_prefix ''BOOST_METAPARSE_V1_EP2(param)''
        (snd (snd (fst (enum_macros ''ENUM_PARAMS'' ''EP'' 3 ! 4))))
   \<and> strict_prefix ''BOOST_METAPARSE_V1_EP2(param)''
        (snd (snd (fst (repetition_macros ''ENUM_PARAMS'' ''EP'' 3 ! 4))))"
proof -
  have h1: "(1::int) \<le> 1" by simp
  have h3: "(1::int) \<le> 3" by simp
  have k: "(2::int) \<le> 3 \<and> (3::int) \<le> 3" by simp
  have s: "str 3 = ''3''" "str (3 - 1) = ''2''" "macro_name (''EP'' @ ''2'') = ''BOOST_METAPARSE_V1_EP2''"
    "nat 3 = 3" "nat 3 + 1 = 4" "nat 1 + 2 = 3"
    by (simp_all add: str_small macro_name_def VERSION_def)
  from helper_chain [OF h1, of "''ENUM_PARAMS''" "''EP''"]
  have a: "length (enum_macros ''ENUM_PARAMS'' ''EP'' 1) = 3
      \<and> fst (enum_macros ''ENUM_PARAMS'' ''EP'' 1 ! 1) = (''EP0'', [''param''], [])"
    unfolding s by simp
  from helper_chain [OF h1, of "''ENUM_CONSTANT''" "''EC''"]
  have b: "fst (repetition_macros ''ENUM_CONSTANT'' ''EC'' 1 ! 1) = (''EC0'', [''param''], [])"
    by simp
  note chain = helper_chain [OF h3, of "''ENUM_PARAMS''" "''EP''" False Map.empty,
    THEN conjunct2, THEN conjunct2, THEN conjunct2, THEN conjunct2, THEN conjunct2,
    THEN conjunct2, rule_format, OF k]
  from chain
  have c: "fst (fst (enum_macros ''ENUM_PARAMS'' ''EP'' 3 ! 3)) = ''EP2''
   \<and> fst (fst (enum_macros ''ENUM_PARAMS'' ''EP'' 3 ! 4)) = ''EP3''
   \<and> strict_prefix ''BOOST_METAPARSE_V1_EP2(param)''
        (snd (snd (fst (enum_macros ''ENUM_PARAMS'' ''EP'' 3 ! 4))))
   \<and> strict_prefix ''BOOST_METAPARSE_V1_EP2(param)''
        (snd (snd (fst (repetition_macros ''ENUM_PARAMS'' ''EP'' 3 ! 4))))"
    unfolding s by simp
  from h1 h3 k a b c show ?thesis by (simp only: simp_thms)
qed

text \<open>
  C4, as amended. In enumeration mode, for every \<open>k\<close> with \<open>2 \<le> k \<le> N\<close>, helper \<open>k\<close>
  is defined with the one argument \<open>param\<close> and with the body that consists of the call
  of helper \<open>k - 1\<close>, a comma and a blank, and the call of the \<open>CAT\<close> macro on \<open>param\<close>
  and the number \<open>k - 1\<close>: the numbering is zero-based, helper 1 having \<open>CAT(param, 0)\<close>.
\<close>

theorem enum_helper_body:
  assumes "2 \<le> k" "k \<le> N"
  shows "fst (enum_macros name internal N ! (nat k + 1)) =
           (internal @ str k, [''param''],
            macro_name (internal @ str (k - 1)) @ ''(param), ''
              @ macro_name ''CAT'' @ ''(param, '' @ str (k - 1) @ '')'')"
  unfolding enum_macros_nth [OF assms]
  by (simp add: enum_helper_def cat_def macro_name_append)

theorem enum_helper_body_witness:
  "fst (enum_macros ''ENUM_PARAMS'' ''EP'' 3 ! 4) =
     (''EP3'', [''param''], ''BOOST_METAPARSE_V1_EP2(param), BOOST_METAPARSE_V1_CAT(param, 2)'')"
proof -
  have h: "(2::int) \<le> 3" "(3::int) \<le> 3" by simp_all
  have s: "str 3 = ''3''" "str (3 - 1) = ''2''" "macro_name (''EP'' @ ''2'') = ''BOOST_METAPARSE_V1_EP2''"
    "macro_name ''CAT'' = ''BOOST_METAPARSE_V1_CAT''" "nat 3 + 1 = 4"
    by (simp_all add: str_small macro_name_def VERSION_def)
  show ?thesis
    using enum_helper_body [OF h, of "''ENUM_PARAMS''" "''EP''"] unfolding s by simp
qed

text \<open>
  C4 as stated has the number \<open>k\<close> in the \<open>CAT\<close> call of helper \<open>k\<close>. For \<open>N = 2\<close> the
  body of helper 2 ends with \<open>CAT(param, 1)\<close>, not with \<open>CAT(param, 2)\<close>.
\<close>

theorem enum_helper_parameter_counterexample:
  "snd (snd (fst (enum_macros ''ENUM_PARAMS'' ''EP'' 2 ! 3)))
     = ''BOOST_METAPARSE_V1_EP1(param), BOOST_METAPARSE_V1_CAT(param, 1)''
   \<and> snd (snd (fst (enum_macros ''ENUM_PARAMS'' ''EP'' 2 ! 3)))
     \<noteq> ''BOOST_METAPARSE_V1_EP1(param), BOOST_METAPARSE_V1_CAT(param, 2)''"
  by (simp add: enum_macros_def xrange_def xrange_up.simps enum_helper_def cat_def
        macro_name_def VERSION_def str_def str_nat.simps digit_char_def)

subsection \<open>Hexadecimal rendering\<close>

lemma digit_char_in: "d < 16 \<Longrightarrow> digit_char d \<in> set ''0123456789ABCDEF''"
  unfolding digit_char_def by (rule nth_mem) simp

lemma lt16_cases:
  "d < 16 \<Longrightarrow> d \<in> {0, 1, 2, 3, 4, 5, 6, 7, 8, 9, 10, 11, 12, 13, 14, 15::nat}"
  by simp arith

lemma hex_digit_value_digit_char: "d < 16 \<Longrightarrow> hex_digit_value (digit_char d) = int d"
  by (drule lt16_cases) (auto simp: hex_digit_value_def digit_char_def)

lemma digit_char_nonzero: "0 < d \<Longrightarrow> d < 16 \<Longrightarrow> digit_char d \<noteq> CHR ''0''"
  by (drule lt16_cases) (auto simp: digit_char_def)

lemma hex_nat_digits: "set (hex_nat n) \<subseteq> set ''0123456789ABCDEF''"
proof (induction n rule: hex_nat.induct)
  case (1 n)
  show ?case
  proof (cases "n < 16")
    case True
    then show ?thesis using digit_char_in [of n] by (simp add: hex_nat.simps [of n])
  next
    case False
    have "n mod 16 < 16" by simp
    then show ?thesis
      using False 1 digit_char_in [of "n mod 16"] by (simp add: hex_nat.simps [of n])
  qed
qed

lemma hex_nat_nonempty: "hex_nat n \<noteq> []"
  by (simp add: hex_nat.simps [of n])

lemma hex_nat_length: "length (hex_nat n) = 1 \<longleftrightarrow> n < 16"
  using hex_nat_nonempty [of "n div 16"] by (simp add: hex_nat.simps [of n])

lemma hex_value_append: "hex_value (xs @ [c]) = 16 * hex_value xs + hex_digit_value c"
  by (simp add: hex_value_def)

lemma hex_value_hex_nat: "hex_value (hex_nat n) = int n"
proof (induction n rule: hex_nat.induct)
  case (1 n)
  show ?case
  proof (cases "n < 16")
    case True
    then show ?thesis
      by (simp add: hex_nat.simps [of n] hex_value_def hex_digit_value_digit_char)
  next
    case False
    have m: "n mod 16 < 16" by simp
    have "hex_value (hex_nat n) = 16 * int (n div 16) + int (n mod 16)"
      using False 1 by (simp add: hex_nat.simps [of n] hex_value_append hex_digit_value_digit_char [OF m])
    also have "\<dots> = int n" by (simp add: zdiv_int zmod_int)
    finally show ?thesis .
  qed
qed

lemma hex_nat_leading: "0 < n \<Longrightarrow> hd (hex_nat n) \<noteq> CHR ''0''"
proof (induction n rule: hex_nat.induct)
  case (1 n)
  show ?case
  proof (cases "n < 16")
    case True
    then show ?thesis using 1 by (simp add: hex_nat.simps [of n] digit_char_nonzero)
  next
    case False
    then have "0 < n div 16" by (simp add: div_greater_zero_iff)
    with False 1 have "hd (hex_nat (n div 16)) \<noteq> CHR ''0''" by simp
    then show ?thesis
      using False hex_nat_nonempty [of "n div 16"] by (simp add: hex_nat.simps [of n])
  qed
qed

lemma format_X_props:
  assumes "0 \<le> i"
  shows "set (format_X i) \<subseteq> set ''0123456789ABCDEF''"
    and "hex_value (format_X i) = i"
    and "length (format_X i) = 1 \<longleftrightarrow> i < 16"
    and "0 < i \<longrightarrow> hd (format_X i) \<noteq> CHR ''0''"
proof -
  have f: "format_X i = hex_nat (nat i)" using assms by (simp add: format_X_def)
  show "set (format_X i) \<subseteq> set ''0123456789ABCDEF''" unfolding f by (rule hex_nat_digits)
  show "hex_value (format_X i) = i" unfolding f hex_value_hex_nat using assms by simp
  show "length (format_X i) = 1 \<longleftrightarrow> i < 16" unfolding f hex_nat_length using assms by linarith
  show "0 < i \<longrightarrow> hd (format_X i) \<noteq> CHR ''0''" unfolding f using hex_nat_leading [of "nat i"] by simp
qed

lemma index_expressions_elem:
  assumes "x \<in> set (index_expressions L)"
  shows "(\<exists>exp i. exp \<in> {1, 2, 3} \<and> 0 \<le> i \<and> (exp \<noteq> 3 \<longrightarrow> i < 16) \<and> x = batched_call exp i)
         \<or> (\<exists>i. x = explicit_lookup L i)"
proof -
  have b2: "L mod 4096 div 256 \<le> 15" 
  proof -
    have "L mod 4096 < 4096" by simp
    then show ?thesis by linarith
  qed
  have b1: "L mod 4096 mod 256 div 16 \<le> 15"
  proof -
    have "L mod 4096 mod 256 < 256" by simp
    then show ?thesis by linarith
  qed
  from assms consider
      (a) i where "x = batched_call 3 i" "0 \<le> i"
    | (b) i where "x = batched_call 2 i" "0 \<le> i" "i < L mod 4096 div 256"
    | (c) i where "x = batched_call 1 i" "0 \<le> i" "i < L mod 4096 mod 256 div 16"
    | (d) i where "x = explicit_lookup L i"
    unfolding index_expressions_unfold by (auto simp: set_xrange)
  then show ?thesis
  proof cases
    case a
    then have "(3::int) \<in> {1, 2, 3} \<and> 0 \<le> i \<and> ((3::int) \<noteq> 3 \<longrightarrow> i < 16) \<and> x = batched_call 3 i" by simp
    then show ?thesis by blast
  next
    case b
    with b2 have "(2::int) \<in> {1, 2, 3} \<and> 0 \<le> i \<and> ((2::int) \<noteq> 3 \<longrightarrow> i < 16) \<and> x = batched_call 2 i" by simp
    then show ?thesis by blast
  next
    case c
    with b1 have "(1::int) \<in> {1, 2, 3} \<and> 0 \<le> i \<and> ((1::int) \<noteq> 3 \<longrightarrow> i < 16) \<and> x = batched_call 1 i" by simp
    then show ?thesis by blast
  next
    case d
    then show ?thesis by blast
  qed
qed

lemma index_expressions_16: "index_expressions 16 = [''BOOST_METAPARSE_V1_STRING_AT1((s), 0)'']"
  by (simp add: index_expressions_unfold xrange_def xrange_up.simps batched_call_def str_small
        format_X_def hex_nat.simps digit_char_def)

text \<open>
  C5, as amended. For every length limit \<open>L\<close>, every expression emitted by
  \<open>generate_string_indexing\<close> is an explicit lookup or a batched call
  \<open>BOOST_METAPARSE_V1_STRING_AT\<close>\<open>exp((s), \<close>\<open>index)\<close> with \<open>exp\<close> among 1, 2, 3, whose block
  index is rendered by \<open>{:X}\<close>: upper-case hexadecimal digits only (so no \<open>0x\<close>), denoting
  the index, without padding - one digit exactly when the index is below 16, which is
  always so for the weights \<open>16^2\<close> and \<open>16^1\<close>, and no leading zero otherwise.
\<close>

theorem block_index_rendering:
  assumes "x \<in> set (index_expressions L)"
  shows "(\<exists>exp i. exp \<in> {1, 2, 3} \<and> 0 \<le> i \<and> (exp \<noteq> 3 \<longrightarrow> i < 16)
            \<and> x = ''BOOST_METAPARSE_V1_STRING_AT'' @ str exp @ ''((s), '' @ format_X i @ '')''
            \<and> set (format_X i) \<subseteq> set ''0123456789ABCDEF''
            \<and> hex_value (format_X i) = i
            \<and> (length (format_X i) = 1 \<longleftrightarrow> i < 16)
            \<and> (0 < i \<longrightarrow> hd (format_X i) \<noteq> CHR ''0''))
         \<or> (\<exists>i. x = explicit_lookup L i)"
  using index_expressions_elem [OF assms]
proof
  assume "\<exists>exp i. exp \<in> {1, 2, 3} \<and> 0 \<le> i \<and> (exp \<noteq> 3 \<longrightarrow> i < 16) \<and> x = batched_call exp i"
  then obtain exp i where h: "exp \<in> {1, 2, 3}" "0 \<le> i" "exp \<noteq> 3 \<longrightarrow> i < 16" "x = batched_call exp i"
    by blast
  note p = format_X_props [OF h(2)]
  from h(4) have "x = ''BOOST_METAPARSE_V1_STRING_AT'' @ str exp @ ''((s), '' @ format_X i @ '')''"
    by (simp only: batched_call_def)
  with h p have "exp \<in> {1, 2, 3} \<and> 0 \<le> i \<and> (exp \<noteq> 3 \<longrightarrow> i < 16)
            \<and> x = ''BOOST_METAPARSE_V1_STRING_AT'' @ str exp @ ''((s), '' @ format_X i @ '')''
            \<and> set (format_X i) \<subseteq> set ''0123456789ABCDEF''
            \<and> hex_value (format_X i) = i
            \<and> (length (format_X i) = 1 \<longleftrightarrow> i < 16)
            \<and> (0 < i \<longrightarrow> hd (format_X i) \<noteq> CHR ''0'')"
    by (simp only: simp_thms)
  then show ?thesis by blast
next
  assume "\<exists>i. x = explicit_lookup L i"
  then show ?thesis by blast
qed

theorem block_index_rendering_witness:
  "''BOOST_METAPARSE_V1_STRING_AT1((s), 0)'' \<in> set (index_expressions 16)
   \<and> ((\<exists>exp i. exp \<in> {1, 2, 3} \<and> 0 \<le> i \<and> (exp \<noteq> 3 \<longrightarrow> i < 16)
            \<and> ''BOOST_METAPARSE_V1_STRING_AT1((s), 0)''
                = ''BOOST_METAPARSE_V1_STRING_AT'' @ str exp @ ''((s), '' @ format_X i @ '')''
            \<and> set (format_X i) \<subseteq> set ''0123456789ABCDEF''
            \<and> hex_value (format_X i) = i
            \<and> (length (format_X i) = 1 \<longleftrightarrow> i < 16)
            \<and> (0 < i \<longrightarrow> hd (format_X i) \<noteq> CHR ''0''))
         \<or> (\<exists>i. ''BOOST_METAPARSE_V1_STRING_AT1((s), 0)'' = explicit_lookup 16 i))"
proof -
  have h: "''BOOST_METAPARSE_V1_STRING_AT1((s), 0)'' \<in> set (index_expressions 16)"
    by (simp add: index_expressions_16)
  show ?thesis using h block_index_rendering [OF h] by (rule conjI)
qed

text \<open>
  C5 as stated requires two hexadecimal digits. For the length limit 16 the only
  expression is the batched call of weight \<open>16^1\<close> with the index 0, rendered as the
  single digit \<open>0\<close>.
\<close>

theorem block_index_two_digits_counterexample:
  "index_expressions 16 = [batched_call 1 0]
   \<and> batched_call 1 0 = ''BOOST_METAPARSE_V1_STRING_AT1((s), 0)''
   \<and> format_X 0 = ''0''
   \<and> length (format_X 0) \<noteq> 2"
  by (simp add: index_expressions_16 batched_call_def str_small format_X_def hex_nat.simps digit_char_def)

subsection \<open>Procedures that only write files\<close>

lemma writes_only_write_file: "writes_only (write_file fname block)"
proof -
  have "\<forall>dir. write_file fname block dir = (dir ++ [fname \<mapsto> fst block], snd block)"
    by (simp add: write_file_def)
  then show ?thesis unfolding writes_only_def by blast
qed

lemma writes_only_raise: "writes_only (\<lambda>dir. (dir, result))"
proof -
  have "\<forall>dir::directory. (dir, result) = (dir ++ Map.empty, result)" by simp
  then show ?thesis unfolding writes_only_def by blast
qed

lemma writes_only_and_then:
  assumes "writes_only f" "writes_only g"
  shows "writes_only (and_then f g)"
proof -
  from assms obtain ff rf fg rg where
    f: "\<forall>dir. f dir = (dir ++ ff, rf)" and g: "\<forall>dir. g dir = (dir ++ fg, rg)"
    unfolding writes_only_def by blast
  show ?thesis
  proof (cases rf)
    case (Inl e)
    with f have "\<forall>dir. and_then f g dir = (dir ++ ff, Inl e)" by (simp add: and_then_def)
    then show ?thesis unfolding writes_only_def by blast
  next
    case (Inr u)
    with f g have "\<forall>dir. and_then f g dir = (dir ++ (ff ++ fg), rg)" by (simp add: and_then_def)
    then show ?thesis unfolding writes_only_def by blast
  qed
qed

lemma writes_only_for_each:
  assumes "\<And>x. writes_only (f x)"
  shows "writes_only (for_each f xs)"
proof (induction xs)
  case Nil
  have "for_each f [] = (\<lambda>dir. (dir, Inr ()))" by (rule ext) simp
  then show ?case by (simp only: writes_only_raise)
next
  case (Cons x xs)
  have "for_each f (x # xs) = and_then (f x) (for_each f xs)" by (rule ext) simp
  then show ?case using writes_only_and_then [OF assms [of x] Cons.IH] by (simp only:)
qed

lemma writes_only_generate_enum: "writes_only (generate_enum name internal max_count undefine)"
  unfolding generate_enum_def by (rule writes_only_write_file)

lemma writes_only_generate_repetition:
  "writes_only (generate_repetition name internal max_count undefine)"
  unfolding generate_repetition_def by (rule writes_only_write_file)

lemma writes_only_generate_with_length_limit:
  "writes_only (generate_with_length_limit int_of length_limit_str)"
proof (cases "int_of length_limit_str")
  case None
  then have "generate_with_length_limit int_of length_limit_str = (\<lambda>dir. (dir, Inl ValueError))"
    by (intro ext) (simp add: generate_with_length_limit_def)
  then show ?thesis by (simp only: writes_only_raise)
next
  case (Some v)
  then have "generate_with_length_limit int_of length_limit_str =
      write_file (filename (''string'' @ length_limit_str) False)
        (length_limit_header (''string'' @ length_limit_str) v, Inr ())"
    by (intro ext) (simp only: generate_with_length_limit_def option.case Let_def)
  then show ?thesis by (simp only: writes_only_write_file)
qed

lemma writes_only_generate_headers: "writes_only (generate_headers int_of limits)"
proof (cases "max_value int_of limits")
  case (Inl e)
  then have "generate_headers int_of limits = (\<lambda>dir. (dir, Inl e))"
    by (intro ext) (simp add: generate_headers_def)
  then show ?thesis by (simp only: writes_only_raise)
next
  case (Inr max_limit)
  then have "generate_headers int_of limits =
      and_then
        (for_each
           (\<lambda>undefine.
              and_then (generate_enum ''ENUM_PARAMS'' ''EP'' max_limit undefine)
                       (generate_repetition ''ENUM_CONSTANT'' ''EC'' max_limit undefine))
           [True, False])
        (for_each (generate_with_length_limit int_of) limits)"
    by (intro ext) (simp only: generate_headers_def sum.case)
  then show ?thesis
    by (simp only: writes_only_and_then writes_only_for_each writes_only_generate_enum
          writes_only_generate_repetition writes_only_generate_with_length_limit)
qed

lemma writes_only_generate_string: "writes_only (generate_string int_of limits)"
  unfolding generate_string_def by (rule writes_only_write_file)

lemma overlay_idem:
  fixes R :: "directory \<Rightarrow> directory"
  assumes "\<And>d n. R d n = (if P n then None else d n)"
  shows "R (R dir ++ files) ++ files = R dir ++ files"
proof (rule ext)
  fix n
  show "(R (R dir ++ files) ++ files) n = (R dir ++ files) n"
  proof (cases "files n")
    case None
    then show ?thesis by (simp add: map_add_def assms)
  next
    case (Some v)
    then show ?thesis by (simp add: map_add_def)
  qed
qed

lemma remove_old_headers_idem:
  "remove_old_headers u (remove_old_headers u dir ++ files) ++ files
     = remove_old_headers u dir ++ files"
  by (rule overlay_idem) (rule remove_old_headers_apply)

subsection \<open>A run without limits\<close>

lemma filename_string: "filename ''string'' False = ''string.hpp''"
  by (simp add: filename_def lower_def lower_char_def)

lemma max_value_empty: "max_value int_of [] = Inl ValueError"
  by (simp add: max_value_def)

lemma generate_string_empty:
  "generate_string int_of [] dir =
     (dir(''string.hpp'' \<mapsto>
        ''// no include guard: the header might be included multiple times\<newline>''
        @ ''\<newline>''
        @ ''// This is an automatically generated header file.\<newline>''
        @ ''// Generated with the tools/string_headers.py utility of\<newline>''
        @ ''// Boost.Metaparse\<newline>''
        @ ''\<newline>''
        @ ''#ifndef BOOST_METAPARSE_LIMIT_STRING_SIZE\<newline>''
        @ ''#  error BOOST_METAPARSE_LIMIT_STRING_SIZE not defined\<newline>''
        @ ''#endif\<newline>''
        @ ''\<newline>''
        @ ''#ifdef BOOST_METAPARSE_V1_STRING\<newline>''
        @ ''#  undef BOOST_METAPARSE_V1_STRING\<newline>''
        @ ''#endif\<newline>''
        @ ''\<newline>''
        @ ''#include <boost/metaparse/v1/impl/enum_params.hpp>\<newline>''
        @ ''#include <boost/metaparse/v1/impl/cat.hpp>\<newline>''
        @ ''#include <boost/metaparse/v1/impl/enum_constant.hpp>\<newline>''
        @ ''#include <boost/metaparse/v1/impl/define_string.hpp>\<newline>''
        @ ''#include <boost/metaparse/v1/impl/specialise_string.hpp>\<newline>''
        @ ''\<newline>''),
      Inl ValueError)"
  unfolding generate_string_def filename_string
  by (simp add: write_file_def then_write_def string_else_def max_value_empty
        write_no_include_guard_info_def write_autogen_info_def headers_def VERSION_def str_small)

lemma length_limits_one: "1 \<le> S \<Longrightarrow> length_limits 1 S = Inr []"
  by (simp add: length_limits_def xrange3_def xrange_up.simps [of S])

lemma generate_empty:
  "generate u int_of [] dir = generate_string int_of [] (remove_old_headers u dir)"
  unfolding generate_def and_then_def generate_string_empty by simp

text \<open>
  C7. Generation is deterministic. Whatever the directory holds, a run ends with the
  directory cleaned by \<open>remove_old_headers\<close> and overlaid with a map of files that the
  limits alone determine, and with a result that the limits alone determine; and running
  \<open>generate\<close> a second time on the directory that the first run left gives that
  directory again, file for file, with the same result.
\<close>

theorem generate_idempotent:
  "generate undeletable int_of limits (fst (generate undeletable int_of limits dir))
     = generate undeletable int_of limits dir
   \<and> (\<exists>files result. \<forall>dir'.
         generate undeletable int_of limits dir'
           = (remove_old_headers undeletable dir' ++ files, result))"
proof -
  have "writes_only (and_then (generate_string int_of limits) (generate_headers int_of limits))"
    by (rule writes_only_and_then [OF writes_only_generate_string writes_only_generate_headers])
  then obtain files result where
    w: "\<forall>d. and_then (generate_string int_of limits) (generate_headers int_of limits) d
             = (d ++ files, result)"
    unfolding writes_only_def by blast
  then have g: "\<forall>dir'. generate undeletable int_of limits dir'
      = (remove_old_headers undeletable dir' ++ files, result)"
    by (simp add: generate_def)
  have "generate undeletable int_of limits (fst (generate undeletable int_of limits dir))
      = generate undeletable int_of limits dir"
    by (simp add: g remove_old_headers_idem)
  with g show ?thesis by blast
qed

lemma main_accepts_one:
  "1 \<le> S \<Longrightarrow> main u int_of 1 S dir
     = (case length_limits 1 S of
          Inl e \<Rightarrow> (dir, Inl e)
        | Inr limits \<Rightarrow> generate u int_of limits dir)"
  by (simp add: main_def positive_integer_def)

text \<open>
  C9. The claim has a run for the maximum length limit 1 end with the old headers
  removed and no new header written. The arguments 1 and \<open>S \<ge> 1\<close> pass
  \<open>positive_integer\<close> and the check of \<open>main\<close>; \<open>length_limits\<close> returns the empty list
  for them, on which \<open>max_value\<close> raises \<open>ValueError\<close>. It does so inside
  \<open>generate_string\<close>, when \<open>string.hpp\<close> is already open and its leading part written:
  the run ends with that exception, the old headers removed, and a truncated
  \<open>string.hpp\<close> left behind as the only file written.
\<close>

theorem generate_without_limits:
  assumes "1 \<le> S"
  shows "positive_integer 1 = Inr 1
       \<and> positive_integer S = Inr S
       \<and> length_limits 1 S = Inr []
       \<and> max_value int_of [] = Inl ValueError
       \<and> generate undeletable int_of [] dir = main undeletable int_of 1 S dir
       \<and> main undeletable int_of 1 S dir =
         ((remove_old_headers undeletable dir)(''string.hpp'' \<mapsto>
        ''// no include guard: the header might be included multiple times\<newline>''
        @ ''\<newline>''
        @ ''// This is an automatically generated header file.\<newline>''
        @ ''// Generated with the tools/string_headers.py utility of\<newline>''
        @ ''// Boost.Metaparse\<newline>''
        @ ''\<newline>''
        @ ''#ifndef BOOST_METAPARSE_LIMIT_STRING_SIZE\<newline>''
        @ ''#  error BOOST_METAPARSE_LIMIT_STRING_SIZE not defined\<newline>''
        @ ''#endif\<newline>''
        @ ''\<newline>''
        @ ''#ifdef BOOST_METAPARSE_V1_STRING\<newline>''
        @ ''#  undef BOOST_METAPARSE_V1_STRING\<newline>''
        @ ''#endif\<newline>''
        @ ''\<newline>''
        @ ''#include <boost/metaparse/v1/impl/enum_params.hpp>\<newline>''
        @ ''#include <boost/metaparse/v1/impl/cat.hpp>\<newline>''
        @ ''#include <boost/metaparse/v1/impl/enum_constant.hpp>\<newline>''
        @ ''#include <boost/metaparse/v1/impl/define_string.hpp>\<newline>''
        @ ''#include <boost/metaparse/v1/impl/specialise_string.hpp>\<newline>''
        @ ''\<newline>''),
          Inl ValueError)"
proof -
  have p: "positive_integer 1 = Inr 1" "positive_integer S = Inr S"
    using assms by (simp_all add: positive_integer_def)
  have m: "main undeletable int_of 1 S dir = generate undeletable int_of [] dir"
    unfolding main_accepts_one [OF assms] length_limits_one [OF assms] by simp
  show ?thesis
    unfolding m generate_empty generate_string_empty
    using p length_limits_one [OF assms] max_value_empty [of int_of] by (simp only: simp_thms)
qed

theorem generate_without_limits_witness:
  "(1::int) \<le> 128
   \<and> length_limits 1 128 = Inr []
   \<and> snd (main {} int_decimal 1 128 Map.empty) = Inl ValueError
   \<and> dom (fst (main {} int_decimal 1 128 Map.empty))
       = insert ''string.hpp'' (dom (remove_old_headers {} Map.empty))"
proof -
  have h: "(1::int) \<le> 128" by simp
  show ?thesis
    using h generate_without_limits [OF h, of int_decimal "{}" Map.empty]
    by (simp only: fst_conv snd_conv dom_fun_upd option.distinct if_False simp_thms)
qed

end
